theory Spec2Isabelle
  imports Complex_Main "HOL-Library.Sublist"
begin

section \<open>Errors\<close>

text \<open>
  The exceptions the modelled code can raise: \<open>ValueError\<close> (pandas rejecting a negative
  centre of mass or window, \<open>float\<close> rejecting a string) and \<open>KeyError\<close> (a column or a
  row label that is not there).
\<close>

datatype error = ValueError | KeyError

section \<open>Floating-point values\<close>

text \<open>
  A float64 cell of a pandas column. The special values of IEEE 754 are kept apart, since
  the oscillator divides by zero: \<open>NaN\<close>, the two infinities, and the negative zero
  \<open>NZero\<close>. \<open>Fin 0\<close> is the positive zero and \<open>Fin r\<close> the finite number \<open>r\<close>.
  Finite arithmetic is exact (a real number), so rounding, overflow and underflow of the
  64-bit format are not part of the model.
\<close>

datatype fval = NaN | PInf | NInf | NZero | Fin real

fun is_nan :: "fval \<Rightarrow> bool" where
  "is_nan NaN = True"
| "is_nan _ = False"

fun is_inf :: "fval \<Rightarrow> bool" where
  "is_inf PInf = True"
| "is_inf NInf = True"
| "is_inf _ = False"

text \<open>The sign bit, and the real number of a finite value.\<close>

fun is_neg :: "fval \<Rightarrow> bool" where
  "is_neg NInf = True"
| "is_neg NZero = True"
| "is_neg (Fin r) = (r < 0)"
| "is_neg _ = False"

fun rv :: "fval \<Rightarrow> real" where
  "rv (Fin r) = r"
| "rv _ = 0"

fun is_zero :: "fval \<Rightarrow> bool" where
  "is_zero NZero = True"
| "is_zero (Fin r) = (r = 0)"
| "is_zero _ = False"

definition zero_s :: "bool \<Rightarrow> fval" where
  "zero_s neg = (if neg then NZero else Fin 0)"

definition inf_s :: "bool \<Rightarrow> fval" where
  "inf_s neg = (if neg then NInf else PInf)"

fun fneg :: "fval \<Rightarrow> fval" where
  "fneg NaN = NaN"
| "fneg PInf = NInf"
| "fneg NInf = PInf"
| "fneg NZero = Fin 0"
| "fneg (Fin r) = (if r = 0 then NZero else Fin (- r))"

text \<open>
  Addition: an infinity absorbs every finite value, opposite infinities give \<open>NaN\<close>,
  and a zero sum is the positive zero unless both operands are the negative zero.
\<close>

fun fadd :: "fval \<Rightarrow> fval \<Rightarrow> fval" where
  "fadd NaN _ = NaN"
| "fadd _ NaN = NaN"
| "fadd PInf NInf = NaN"
| "fadd NInf PInf = NaN"
| "fadd PInf _ = PInf"
| "fadd _ PInf = PInf"
| "fadd NInf _ = NInf"
| "fadd _ NInf = NInf"
| "fadd NZero NZero = NZero"
| "fadd NZero (Fin r) = Fin r"
| "fadd (Fin r) NZero = Fin r"
| "fadd (Fin r) (Fin s) = Fin (r + s)"

definition fsub :: "fval \<Rightarrow> fval \<Rightarrow> fval" where
  "fsub a b = fadd a (fneg b)"

text \<open>
  Multiplication and division: the sign of the result is the exclusive or of the signs;
  \<open>inf * 0\<close>, \<open>inf / inf\<close> and \<open>0 / 0\<close> are \<open>NaN\<close>; a non-zero value divided by a zero is an
  infinity.
\<close>

definition fmul :: "fval \<Rightarrow> fval \<Rightarrow> fval" where
  "fmul a b =
     (if is_nan a \<or> is_nan b then NaN
      else if is_inf a \<or> is_inf b then
        (if is_zero a \<or> is_zero b then NaN else inf_s (is_neg a \<noteq> is_neg b))
      else if is_zero a \<or> is_zero b then zero_s (is_neg a \<noteq> is_neg b)
      else Fin (rv a * rv b))"

definition fdiv :: "fval \<Rightarrow> fval \<Rightarrow> fval" where
  "fdiv a b =
     (if is_nan a \<or> is_nan b then NaN
      else if is_inf a then
        (if is_inf b then NaN else inf_s (is_neg a \<noteq> is_neg b))
      else if is_inf b then zero_s (is_neg a \<noteq> is_neg b)
      else if is_zero b then
        (if is_zero a then NaN else inf_s (is_neg a \<noteq> is_neg b))
      else if is_zero a then zero_s (is_neg a \<noteq> is_neg b)
      else Fin (rv a / rv b))"

text \<open>
  Comparisons: every comparison with \<open>NaN\<close> is false, the two zeros are equal.
\<close>

fun fle :: "fval \<Rightarrow> fval \<Rightarrow> bool" where
  "fle NaN _ = False"
| "fle _ NaN = False"
| "fle NInf _ = True"
| "fle _ PInf = True"
| "fle PInf _ = False"
| "fle _ NInf = False"
| "fle a b = (rv a \<le> rv b)"

definition feq :: "fval \<Rightarrow> fval \<Rightarrow> bool" where
  "feq a b = (fle a b \<and> fle b a)"

section \<open>Series operations of pandas\<close>

text \<open>
  A \<^verbatim>\<open>Series\<close> of floats is the list of its cells in index order.

  \<^verbatim>\<open>Series.diff()\<close>: the first cell has no predecessor and is \<open>NaN\<close>; every other cell
  is the cell minus its predecessor.
\<close>

fun diff_from :: "fval \<Rightarrow> fval list \<Rightarrow> fval list" where
  "diff_from prev [] = []"
| "diff_from prev (x # xs) = fsub x prev # diff_from x xs"

fun series_diff :: "fval list \<Rightarrow> fval list" where
  "series_diff [] = []"
| "series_diff (x # xs) = NaN # diff_from x xs"

text \<open>
  \<^verbatim>\<open>Series.clip(lower=b)\<close> and \<^verbatim>\<open>Series.clip(upper=b)\<close>: a missing cell stays missing, a
  cell on the right side of the bound is kept as it is, every other cell becomes the
  bound.
\<close>

definition clip_lower :: "fval \<Rightarrow> fval \<Rightarrow> fval" where
  "clip_lower b v = (if is_nan v \<or> fle b v then v else b)"

definition clip_upper :: "fval \<Rightarrow> fval \<Rightarrow> fval" where
  "clip_upper b v = (if is_nan v \<or> fle v b then v else b)"

text \<open>
  \<^verbatim>\<open>Series.ewm(com=c, adjust=False).mean()\<close>, with the defaults \<^verbatim>\<open>ignore_na=False\<close> and
  \<^verbatim>\<open>min_periods=0\<close> (which pandas raises to 1). This is the loop of pandas' \<^verbatim>\<open>ewm\<close>
  aggregation: \<open>weighted\<close> is the running average, \<open>old_wt\<close> the weight of the history
  (multiplied by \<open>1 - alpha\<close> at every row, reset to 1 at every observation), \<open>nobs\<close> the
  number of observations so far. A missing cell leaves the average as it is; the first
  observation seeds it. The weights are positive finite numbers and are kept as reals.
  Before the loop, pandas turns every infinite cell into a missing one (\<open>prep_values\<close>).
\<close>

definition ewm_step :: "real \<Rightarrow> fval \<Rightarrow> real \<Rightarrow> fval \<Rightarrow> fval \<times> real" where
  "ewm_step alpha weighted old_wt cur =
     (if \<not> is_nan weighted then
        (let old_wt = old_wt * (1 - alpha) in
         if \<not> is_nan cur then
           ((if \<not> feq weighted cur
             then fdiv (fadd (fmul (Fin old_wt) weighted) (fmul (Fin alpha) cur))
                       (Fin (old_wt + alpha))
             else weighted), 1)
         else (weighted, old_wt))
      else if \<not> is_nan cur then (cur, old_wt)
      else (weighted, old_wt))"

fun ewm_loop :: "real \<Rightarrow> fval \<Rightarrow> real \<Rightarrow> nat \<Rightarrow> fval list \<Rightarrow> fval list" where
  "ewm_loop alpha weighted old_wt nobs [] = []"
| "ewm_loop alpha weighted old_wt nobs (cur # rest) =
     (let nobs = nobs + (if is_nan cur then 0 else 1);
          (weighted, old_wt) = ewm_step alpha weighted old_wt cur
      in (if nobs \<ge> 1 then weighted else NaN) # ewm_loop alpha weighted old_wt nobs rest)"

definition prep_values :: "fval list \<Rightarrow> fval list" where
  "prep_values vals = map (\<lambda>v. if is_inf v then NaN else v) vals"

definition ewm_mean :: "int \<Rightarrow> fval list \<Rightarrow> error + fval list" where
  "ewm_mean com vals =
     (if com < 0 then Inl ValueError
      else Inr (case prep_values vals of
                  [] \<Rightarrow> []
                | v # rest \<Rightarrow>
                    (let alpha = 1 / (1 + real_of_int com);
                         nobs = (if is_nan v then 0 else 1)
                     in (if nobs \<ge> (1::nat) then v else NaN) # ewm_loop alpha v 1 nobs rest)))"

text \<open>
  \<^verbatim>\<open>Series.rolling(w).mean()\<close>: \<^verbatim>\<open>min_periods\<close> defaults to the window, infinite cells are
  turned into missing ones before the aggregation, and the cell at row \<open>i\<close> is the sum of
  the observations among rows \<open>i - w + 1 .. i\<close> divided by their number when there are at
  least \<open>w\<close> (and at least one) of them, and \<open>NaN\<close> otherwise. A negative window is
  refused. pandas keeps the sum as a running 64-bit float; the model adds the
  observations of the window exactly.
\<close>

definition window_at :: "fval list \<Rightarrow> nat \<Rightarrow> nat \<Rightarrow> fval list" where
  "window_at xs w i = drop (Suc i - w) (take (Suc i) xs)"

definition calc_mean :: "nat \<Rightarrow> fval list \<Rightarrow> fval" where
  "calc_mean minp win =
     (let obs = filter (\<lambda>v. \<not> is_nan v \<and> \<not> is_inf v) win;
          nobs = length obs
      in if nobs \<ge> minp \<and> nobs > 0 then Fin (sum_list (map rv obs) / real nobs) else NaN)"

definition rolling_mean :: "int \<Rightarrow> fval list \<Rightarrow> error + fval list" where
  "rolling_mean window xs =
     (if window < 0 then Inl ValueError
      else Inr (map (\<lambda>i. calc_mean (nat window) (window_at xs (nat window) i))
                    [0..<length xs]))"

section \<open>The indicators\<close>

text \<open>
  \<^verbatim>\<open>rsi(series, periods)\<close>: the changes, their positive parts \<open>up\<close> and the negated
  negative parts \<open>down\<close>, both smoothed with centre of mass \<open>periods - 1\<close>, and
  \<open>100 - 100 / (1 + ema_up / ema_down)\<close> cell by cell. Each local variable of the source
  is a function of the arguments, under the variable's name.
\<close>

definition rsi_delta :: "fval list \<Rightarrow> fval list" where
  "rsi_delta series = series_diff series"

definition rsi_up :: "fval list \<Rightarrow> fval list" where
  "rsi_up series = map (clip_lower (Fin 0)) (rsi_delta series)"

definition rsi_down :: "fval list \<Rightarrow> fval list" where
  "rsi_down series = map (\<lambda>v. fmul (Fin (- 1)) (clip_upper (Fin 0) v)) (rsi_delta series)"

definition rsi_ema_up :: "fval list \<Rightarrow> int \<Rightarrow> error + fval list" where
  "rsi_ema_up series periods = ewm_mean (periods - 1) (rsi_up series)"

definition rsi_ema_down :: "fval list \<Rightarrow> int \<Rightarrow> error + fval list" where
  "rsi_ema_down series periods = ewm_mean (periods - 1) (rsi_down series)"

definition rsi_value :: "fval \<Rightarrow> fval \<Rightarrow> fval" where
  "rsi_value ema_up ema_down =
     (let rs = fdiv ema_up ema_down
      in fsub (Fin 100) (fdiv (Fin 100) (fadd (Fin 1) rs)))"

definition rsi :: "fval list \<Rightarrow> int \<Rightarrow> error + fval list" where
  "rsi series periods =
     (case rsi_ema_up series periods of
        Inl e \<Rightarrow> Inl e
      | Inr ema_up \<Rightarrow>
          (case rsi_ema_down series periods of
             Inl e \<Rightarrow> Inl e
           | Inr ema_down \<Rightarrow> Inr (map2 rsi_value ema_up ema_down)))"

text \<open>\<^verbatim>\<open>sma(series, period)\<close>: the rolling mean over \<open>period\<close> rows.\<close>

definition sma :: "fval list \<Rightarrow> int \<Rightarrow> error + fval list" where
  "sma series period = rolling_mean period series"

section \<open>The price data\<close>

text \<open>
  A row of the frame that the download returns: its index label (the timestamp) and the
  six columns of the provider. \<^verbatim>\<open>load_price_data\<close> adds the oscillator column, under the
  label \<open>rsi_label\<close>, and \<^verbatim>\<open>plot_price\<close> adds the column \<^verbatim>\<open>Date\<close>.
\<close>

record price_row =
  idx :: int
  Open :: fval
  High :: fval
  Low :: fval
  Close :: fval
  Adj_Close :: fval
  Volume :: fval

record rsi_row = price_row +
  RSI :: fval

record dated_row = rsi_row +
  Date :: int

record price_frame =
  rsi_label :: string
  frame_rows :: "rsi_row list"

record dated_frame =
  dated_rsi_label :: string
  dated_rows :: "dated_row list"

text \<open>The decimal text of an integer, as an f-string prints it.\<close>

definition digit_char :: "nat \<Rightarrow> char" where
  "digit_char d = ''0123456789'' ! d"

fun str_nat :: "nat \<Rightarrow> string" where
  "str_nat n = (if n < 10 then [digit_char n] else str_nat (n div 10) @ [digit_char (n mod 10)])"

declare str_nat.simps [simp del]

definition str_int :: "int \<Rightarrow> string" where
  "str_int i = (if i < 0 then CHR ''-'' # str_nat (nat (- i)) else str_nat (nat i))"

definition rsi_column_label :: "int \<Rightarrow> string" where
  "rsi_column_label rsi_periods = ''RSI ('' @ str_int rsi_periods @ '')''"

definition add_rsi :: "price_row \<Rightarrow> fval \<Rightarrow> rsi_row" where
  "add_rsi r v = price_row.extend r (rsi_row.fields v)"

text \<open>
  \<^verbatim>\<open>DataFrame.dropna()\<close>: a row with a missing value in any column is removed.
\<close>

definition has_na :: "rsi_row \<Rightarrow> bool" where
  "has_na r = (is_nan (Open r) \<or> is_nan (High r) \<or> is_nan (Low r) \<or> is_nan (Close r) \<or>
               is_nan (Adj_Close r) \<or> is_nan (Volume r) \<or> is_nan (RSI r))"

definition dropna :: "rsi_row list \<Rightarrow> rsi_row list" where
  "dropna rs = filter (\<lambda>r. \<not> has_na r) rs"

text \<open>
  \<^verbatim>\<open>load_price_data\<close>. The download is the provider's part: \<open>data\<close> is the frame it
  returned, and \<open>rsi_periods\<close> the global of that name.
\<close>

definition load_price_data :: "price_row list \<Rightarrow> int \<Rightarrow> error + price_frame" where
  "load_price_data data rsi_periods =
     (case rsi (map Adj_Close data) rsi_periods of
        Inl e \<Rightarrow> Inl e
      | Inr col \<Rightarrow>
          Inr \<lparr>rsi_label = rsi_column_label rsi_periods,
               frame_rows = dropna (map2 add_rsi data col)\<rparr>)"

section \<open>The price chart\<close>

text \<open>The globals that \<^verbatim>\<open>plot_price\<close> reads: the sidebar's check boxes and sliders.\<close>

record config =
  sma_1 :: bool
  sma_1_periods :: int
  sma_2 :: bool
  sma_2_periods :: int
  rsi_1 :: bool
  rsi_periods :: int
  volume :: bool

definition SMA_1_COLOR :: string where "SMA_1_COLOR = ''#ffd700''"
definition SMA_2_COLOR :: string where "SMA_2_COLOR = ''#2069e0''"
definition RSI_30_70_COLOR :: string where "RSI_30_70_COLOR = ''#00ff00''"
definition RSI_15_85_COLOR :: string where "RSI_15_85_COLOR = ''#ffaa00''"
definition RSI_0_100_COLOR :: string where "RSI_0_100_COLOR = ''#ff0000''"

text \<open>
  What the calls on an axes leave behind: its place in the grid (\<^verbatim>\<open>subplot(14, 1, (a, b))\<close>
  is the grid \<open>(14, 1)\<close> and the rows \<open>a\<close> to \<open>b\<close>), the plotted lines, the horizontal
  lines, the bars, the title, the ticks and the colours.
\<close>

record plot_line =
  line_x :: "int list"
  line_y :: "fval list"
  line_color :: string
  line_alpha :: "real option"
  line_width :: "nat option"
  line_label :: "string option"

record hline =
  h_y :: int
  h_linestyle :: string
  h_alpha :: real
  h_color :: string

record axes =
  subplot_grid :: "nat \<times> nat"
  subplot_rows :: "nat \<times> nat"
  sharex :: bool
  ax_lines :: "plot_line list"
  ax_hlines :: "hline list"
  ax_bars :: "(int list \<times> fval list \<times> string) option"
  ax_title :: "(string \<times> string) option"
  ax_grid :: string
  ax_facecolor :: string
  ax_xtick_color :: string
  ax_ytick_color :: string
  ax_yticks :: "int list option"
  ax_legend :: bool

record figure =
  figsize :: "nat \<times> nat"
  fig_facecolor :: string
  ax1 :: axes
  ax2 :: "axes option"
  ax3 :: "axes option"

definition subplot :: "nat \<times> nat \<Rightarrow> nat \<times> nat \<Rightarrow> bool \<Rightarrow> axes" where
  "subplot g rs sh =
     \<lparr>subplot_grid = g, subplot_rows = rs, sharex = sh, ax_lines = [], ax_hlines = [],
      ax_bars = None, ax_title = None, ax_grid = [], ax_facecolor = [],
      ax_xtick_color = [], ax_ytick_color = [], ax_yticks = None, ax_legend = False\<rparr>"

definition axhline :: "int \<Rightarrow> string \<Rightarrow> axes \<Rightarrow> axes" where
  "axhline y c ax =
     ax\<lparr>ax_hlines := ax_hlines ax @
          [\<lparr>h_y = y, h_linestyle = ''--'', h_alpha = 0.5, h_color = c\<rparr>]\<rparr>"

definition plot :: "plot_line \<Rightarrow> axes \<Rightarrow> axes" where
  "plot l ax = ax\<lparr>ax_lines := ax_lines ax @ [l]\<rparr>"

definition sma_line :: "int list \<Rightarrow> fval list \<Rightarrow> string \<Rightarrow> int \<Rightarrow> plot_line" where
  "sma_line x y c periods =
     \<lparr>line_x = x, line_y = y, line_color = c, line_alpha = Some 0.8, line_width = Some 2,
      line_label = Some (''SMA('' @ str_int periods @ '')'')\<rparr>"

definition add_date :: "rsi_row \<Rightarrow> dated_row" where
  "add_date r = rsi_row.extend r (dated_row.fields (idx r))"

text \<open>
  The three panels of \<^verbatim>\<open>plot_price\<close>, in the order of the source. The price panel is
  built first; a moving average that is switched on is computed and drawn on it, and a
  refused window ends the function with the error.
\<close>

definition price_panel :: "config \<Rightarrow> dated_row list \<Rightarrow> error + axes" where
  "price_panel cfg df =
     (let index = map idx df;
          adj = map Adj_Close df;
          ax = subplot (14, 1) (1, 7) False;
          ax = plot \<lparr>line_x = index, line_y = adj, line_color = ''lightgray'',
                     line_alpha = None, line_width = Some 2,
                     line_label = Some ''Adj. Close''\<rparr> ax;
          ax = ax\<lparr>ax_grid := ''#555555'', ax_facecolor := ''black'',
                  ax_xtick_color := ''white'', ax_ytick_color := ''white''\<rparr>
      in case (if sma_1 cfg
               then (case sma adj (sma_1_periods cfg) of
                       Inl e \<Rightarrow> Inl e
                     | Inr sma_1_plot \<Rightarrow>
                         Inr (plot (sma_line index sma_1_plot SMA_1_COLOR (sma_1_periods cfg)) ax))
               else Inr ax) of
           Inl e \<Rightarrow> Inl e
         | Inr ax \<Rightarrow>
            (case (if sma_2 cfg
                   then (case sma adj (sma_2_periods cfg) of
                           Inl e \<Rightarrow> Inl e
                         | Inr sma_2_plot \<Rightarrow>
                             Inr (plot (sma_line index sma_2_plot SMA_2_COLOR (sma_2_periods cfg)) ax))
                   else Inr ax) of
               Inl e \<Rightarrow> Inl e
             | Inr ax \<Rightarrow> Inr (ax\<lparr>ax_legend := True\<rparr>)))"

definition rsi_panel :: "config \<Rightarrow> string \<Rightarrow> dated_row list \<Rightarrow> error + axes" where
  "rsi_panel cfg label df =
     (if rsi_column_label (rsi_periods cfg) \<noteq> label then Inl KeyError
      else
        (let ax = subplot (14, 1) (9, 10) True;
             ax = plot \<lparr>line_x = map idx df, line_y = map RSI df, line_color = ''lightgray'',
                        line_alpha = None, line_width = None, line_label = None\<rparr> ax;
             ax = ax\<lparr>ax_title := Some (rsi_column_label (rsi_periods cfg), ''white''),
                     ax_grid := ''#555555'', ax_facecolor := ''black'',
                     ax_xtick_color := ''#121212'', ax_ytick_color := ''white'',
                     ax_yticks := Some [0, 30, 70, 100]\<rparr>;
             ax = axhline 1 RSI_0_100_COLOR ax;
             ax = axhline 99 RSI_0_100_COLOR ax;
             ax = axhline 15 RSI_15_85_COLOR ax;
             ax = axhline 85 RSI_15_85_COLOR ax;
             ax = axhline 30 RSI_30_70_COLOR ax;
             ax = axhline 70 RSI_30_70_COLOR ax
         in Inr ax))"

definition volume_panel :: "config \<Rightarrow> dated_row list \<Rightarrow> axes" where
  "volume_panel cfg df =
     (let ax = (if rsi_1 cfg then subplot (14, 1) (12, 14) True
                else subplot (14, 1) (9, 10) True);
          ax = ax\<lparr>ax_bars := Some (map idx df, map Volume df, ''white'')\<rparr>
      in ax\<lparr>ax_title := Some (''Volume'', ''white''), ax_grid := ''#555555'',
             ax_facecolor := ''black'', ax_xtick_color := ''white'',
             ax_ytick_color := ''white''\<rparr>)"

text \<open>
  \<^verbatim>\<open>plot_price\<close>: the frame is changed in place (the column \<^verbatim>\<open>Date\<close> is added), so the
  function returns the frame as it leaves it together with the figure.
\<close>

definition plot_price :: "config \<Rightarrow> price_frame \<Rightarrow> error + (figure \<times> dated_frame)" where
  "plot_price cfg price_data =
     (let df = map add_date (frame_rows price_data);
          label = rsi_label price_data
      in case price_panel cfg df of
           Inl e \<Rightarrow> Inl e
         | Inr a1 \<Rightarrow>
            (case (if rsi_1 cfg
                   then (case rsi_panel cfg label df of
                           Inl e \<Rightarrow> Inl e
                         | Inr a \<Rightarrow> Inr (Some a))
                   else Inr None) of
               Inl e \<Rightarrow> Inl e
             | Inr a2 \<Rightarrow>
                 Inr (\<lparr>figsize = (12, 8), fig_facecolor = ''#121212'', ax1 = a1, ax2 = a2,
                       ax3 = (if volume cfg then Some (volume_panel cfg df) else None)\<rparr>,
                      \<lparr>dated_rsi_label = label, dated_rows = df\<rparr>)))"

text \<open>The panels of a figure from top to bottom, and the rows a panel covers.\<close>

definition panels :: "figure \<Rightarrow> axes list" where
  "panels fig = ax1 fig # (case ax2 fig of None \<Rightarrow> [] | Some a \<Rightarrow> [a]) @
                          (case ax3 fig of None \<Rightarrow> [] | Some a \<Rightarrow> [a])"

definition first_row :: "axes \<Rightarrow> nat" where
  "first_row ax = fst (subplot_rows ax)"

definition last_row :: "axes \<Rightarrow> nat" where
  "last_row ax = snd (subplot_rows ax)"

definition n_rows :: "axes \<Rightarrow> nat" where
  "n_rows ax = Suc (last_row ax) - first_row ax"

section \<open>The ownership chart\<close>

text \<open>
  \<^verbatim>\<open>float(s)\<close> on a string. A character of the model is a code point below 256. The
  white space above the ASCII range (the next-line character and the no-break space)
  is first turned into a blank; then the blanks, tabs, line feeds, vertical tabs, form
  feeds and carriage returns around the text are dropped (the separators \<open>0x1C\<close> to
  \<open>0x1F\<close> are not); then comes an optional
  sign and either \<^verbatim>\<open>inf\<close>, \<^verbatim>\<open>infinity\<close> or \<^verbatim>\<open>nan\<close> in any case, or a decimal number
  (digits with single underscores between them, an optional point, an optional
  exponent). Every other string raises \<^verbatim>\<open>ValueError\<close>. The value of a decimal number is
  the exact real number it denotes.
\<close>

definition to_ascii :: "char \<Rightarrow> char" where
  "to_ascii c = (if c = CHR 0x85 \<or> c = CHR 0xA0 then CHR '' '' else c)"

definition is_space :: "char \<Rightarrow> bool" where
  "is_space c = (c \<in> set [CHR '' '', CHR 0x09, CHR 0x0A, CHR 0x0B, CHR 0x0C, CHR 0x0D])"

definition strip :: "string \<Rightarrow> string" where
  "strip s = rev (dropWhile is_space (rev (dropWhile is_space s)))"

definition is_digit :: "char \<Rightarrow> bool" where
  "is_digit c = (c \<in> set ''0123456789'')"

definition digit_val :: "char \<Rightarrow> nat" where
  "digit_val c = of_char c - 48"

definition lower :: "char \<Rightarrow> char" where
  "lower c = (if 65 \<le> (of_char c :: nat) \<and> (of_char c :: nat) \<le> 90
              then char_of (of_char c + (32 :: nat)) else c)"

text \<open>
  The digits after the first one of a digit part, and what follows them: an underscore
  belongs to the digit part only when a digit follows it.
\<close>

fun digits_rest :: "string \<Rightarrow> nat list \<times> string" where
  "digits_rest [] = ([], [])"
| "digits_rest [c] = (if is_digit c then ([digit_val c], []) else ([], [c]))"
| "digits_rest (c # d # cs) =
     (if is_digit c then (case digits_rest (d # cs) of (ds, r) \<Rightarrow> (digit_val c # ds, r))
      else if c = CHR ''_'' \<and> is_digit d
           then (case digits_rest cs of (ds, r) \<Rightarrow> (digit_val d # ds, r))
      else ([], c # d # cs))"

definition digitpart :: "string \<Rightarrow> (nat list \<times> string) option" where
  "digitpart s =
     (case s of
        [] \<Rightarrow> None
      | c # cs \<Rightarrow>
          if is_digit c then (case digits_rest cs of (ds, r) \<Rightarrow> Some (digit_val c # ds, r))
          else None)"

definition nat_of_digits :: "nat list \<Rightarrow> nat" where
  "nat_of_digits ds = foldl (\<lambda>a d. 10 * a + d) 0 ds"

text \<open>The integer digits, the fraction digits and the rest of a number.\<close>

definition number :: "string \<Rightarrow> (nat list \<times> nat list \<times> string) option" where
  "number s =
     (case digitpart s of
        Some (ip, r) \<Rightarrow>
          (case r of
             [] \<Rightarrow> Some (ip, [], [])
           | c # r' \<Rightarrow>
               if c = CHR ''.''
               then (case digitpart r' of
                       Some (fp, r'') \<Rightarrow> Some (ip, fp, r'')
                     | None \<Rightarrow> Some (ip, [], r'))
               else Some (ip, [], r))
      | None \<Rightarrow>
          (case s of
             [] \<Rightarrow> None
           | c # r' \<Rightarrow>
               if c = CHR ''.''
               then (case digitpart r' of
                       Some (fp, r'') \<Rightarrow> Some ([], fp, r'')
                     | None \<Rightarrow> None)
               else None))"

text \<open>The exponent at the end of a number: nothing, or \<^verbatim>\<open>e\<close>, a sign and a digit part.\<close>

definition exponent :: "string \<Rightarrow> int option" where
  "exponent s =
     (case s of
        [] \<Rightarrow> Some 0
      | c # r \<Rightarrow>
          if lower c = CHR ''e''
          then (let (neg, r) = (case r of
                                  [] \<Rightarrow> (False, r)
                                | sg # r' \<Rightarrow>
                                    if sg = CHR ''-'' then (True, r')
                                    else if sg = CHR ''+'' then (False, r')
                                    else (False, r))
                in case digitpart r of
                     Some (ds, []) \<Rightarrow>
                       Some (if neg then - int (nat_of_digits ds) else int (nat_of_digits ds))
                   | _ \<Rightarrow> None)
          else None)"

definition scale10 :: "real \<Rightarrow> int \<Rightarrow> real" where
  "scale10 m e = (if 0 \<le> e then m * 10 ^ nat e else m / 10 ^ nat (- e))"

definition py_float :: "string \<Rightarrow> error + fval" where
  "py_float s =
     (let s = strip (map to_ascii s);
          (neg, s) = (case s of
                        [] \<Rightarrow> (False, s)
                      | sg # r \<Rightarrow>
                          if sg = CHR ''-'' then (True, r)
                          else if sg = CHR ''+'' then (False, r)
                          else (False, s));
          word = map lower s
      in if word = ''inf'' \<or> word = ''infinity'' then Inr (inf_s neg)
         else if word = ''nan'' then Inr NaN
         else
           (case number s of
              None \<Rightarrow> Inl ValueError
            | Some (ip, fp, r) \<Rightarrow>
                (case exponent r of
                   None \<Rightarrow> Inl ValueError
                 | Some e \<Rightarrow>
                     (let m = scale10 (real (nat_of_digits (ip @ fp)) / 10 ^ length fp) e
                      in Inr (if m = 0 then zero_s neg
                              else Fin (if neg then - m else m))))))"

text \<open>
  The table of major holders: its columns under their labels, each the list of its cells
  in the order of the row labels \<open>0, 1, 2, ...\<close>. \<^verbatim>\<open>major_holders[c][r]\<close> raises
  \<^verbatim>\<open>KeyError\<close> for a label that is not there.
\<close>

type_synonym holders = "(nat \<times> string list) list"

definition cell :: "holders \<Rightarrow> nat \<Rightarrow> nat \<Rightarrow> error + string" where
  "cell major_holders c r =
     (case map_of major_holders c of
        None \<Rightarrow> Inl KeyError
      | Some col \<Rightarrow> if r < length col then Inr (col ! r) else Inl KeyError)"

text \<open>
  A pie on its axes: the place in the grid (\<^verbatim>\<open>subplot(1, 5, k)\<close>), the arguments of
  \<^verbatim>\<open>pie\<close>, and the title. \<^verbatim>\<open>pie\<close> refuses a wedge size that is negative, missing or
  infinite.
\<close>

record pie_axes =
  pie_subplot :: "nat \<times> nat \<times> nat"
  pie_x :: "fval list"
  pie_colors :: "string list"
  pie_labels :: "string option list"
  pie_counterclock :: bool
  pie_startangle :: int
  pie_edgecolor :: string
  pie_title :: string

definition flt :: "fval \<Rightarrow> fval \<Rightarrow> bool" where
  "flt a b = (fle a b \<and> \<not> fle b a)"

definition pie :: "nat \<Rightarrow> fval \<Rightarrow> string \<Rightarrow> string \<Rightarrow> error + pie_axes" where
  "pie k ptc label ttl =
     (let x = [ptc, fsub (Fin 100) ptc]
      in if list_ex (\<lambda>v. flt v (Fin 0) \<or> is_nan v \<or> is_inf v) x then Inl ValueError
         else Inr \<lparr>pie_subplot = (1, 5, k), pie_x = x, pie_colors = [''black'', ''white''],
                   pie_labels = [Some label, None], pie_counterclock = False,
                   pie_startangle = 90, pie_edgecolor = ''k'', pie_title = ttl\<rparr>)"

text \<open>
  The percentage of a cell: the cell without its last character, as a float.
\<close>

definition ptc_of :: "holders \<Rightarrow> nat \<Rightarrow> error + fval" where
  "ptc_of major_holders r =
     (case cell major_holders 0 r of
        Inl e \<Rightarrow> Inl e
      | Inr s \<Rightarrow> py_float (butlast s))"

text \<open>
  \<^verbatim>\<open>plot_major_holders\<close>: the three percentages are read first, then the three pies are
  drawn in columns 1, 3 and 5 of a grid of one row and five columns; the label of each
  pie is the cell the percentage was read from.
\<close>

definition plot_major_holders :: "holders \<Rightarrow> error + pie_axes list" where
  "plot_major_holders major_holders =
     (case ptc_of major_holders 0 of
        Inl e \<Rightarrow> Inl e
      | Inr ptc_insiders \<Rightarrow>
     (case ptc_of major_holders 1 of
        Inl e \<Rightarrow> Inl e
      | Inr ptc_shares_institutions \<Rightarrow>
     (case ptc_of major_holders 2 of
        Inl e \<Rightarrow> Inl e
      | Inr ptc_float_institutions \<Rightarrow>
     (case pie 1 ptc_insiders (projr (cell major_holders 0 0))
                 ''% of Shares Held by Insiders'' of
        Inl e \<Rightarrow> Inl e
      | Inr a1 \<Rightarrow>
     (case pie 3 ptc_shares_institutions (projr (cell major_holders 0 1))
                 ''% of Shares Held by Institutions'' of
        Inl e \<Rightarrow> Inl e
      | Inr a2 \<Rightarrow>
     (case pie 5 ptc_float_institutions (projr (cell major_holders 0 2))
                 ''% of Float Held by Institutions'' of
        Inl e \<Rightarrow> Inl e
      | Inr a3 \<Rightarrow> Inr [a1, a2, a3]))))))"

section \<open>The interval selector\<close>

text \<open>
  \<^verbatim>\<open>convert_interval\<close>: three conditional reassignments of the same variable, in the
  order of the source.
\<close>

definition convert_interval :: "string \<Rightarrow> string" where
  "convert_interval interval =
     (let interval = (if interval = ''1 day'' then ''1d'' else interval);
          interval = (if interval = ''1 week'' then ''1wk'' else interval);
          interval = (if interval = ''1 month'' then ''1mo'' else interval)
      in interval)"

section \<open>Notions of the statements\<close>

text \<open>
  A finite value is neither missing nor infinite; \<open>nn\<close> holds of the values that are not
  below zero (a missing value included), \<open>fnn\<close> of the finite ones among them.
\<close>

definition finite_val :: "fval \<Rightarrow> bool" where
  "finite_val v = (\<not> is_nan v \<and> \<not> is_inf v)"

fun nn :: "fval \<Rightarrow> bool" where
  "nn NInf = False"
| "nn (Fin r) = (0 \<le> r)"
| "nn _ = True"

definition fnn :: "fval \<Rightarrow> bool" where
  "fnn v = (finite_val v \<and> nn v)"

text \<open>
  The arithmetic mean of a window as the specification words it: the sum of the cells
  divided by their number, in the arithmetic of the cells (a missing cell makes the mean
  missing).
\<close>

definition arithmetic_mean :: "fval list \<Rightarrow> fval" where
  "arithmetic_mean xs = fdiv (foldl fadd (Fin 0) xs) (Fin (real (length xs)))"

text \<open>
  The oscillator as the specification words it, on the real numbers of a series of
  finite prices. Row \<open>t \<ge> 1\<close> has the gain \<open>max (S t - S (t - 1)) 0\<close> and the loss
  \<open>max (S (t - 1) - S t) 0\<close>; the smoothed stream is seeded with the observation of row 1
  and weighs every later observation with \<open>a\<close>; the value is \<open>100 - 100 / (1 + g / l)\<close>,
  which is 100 where only the smoothed loss is zero and is missing where both smoothed
  streams are zero, as in row 0.
\<close>

fun ewma :: "real \<Rightarrow> (nat \<Rightarrow> real) \<Rightarrow> nat \<Rightarrow> real" where
  "ewma a x 0 = 0"
| "ewma a x (Suc 0) = x 1"
| "ewma a x (Suc (Suc t)) = (1 - a) * ewma a x (Suc t) + a * x (Suc (Suc t))"

definition gain :: "fval list \<Rightarrow> nat \<Rightarrow> real" where
  "gain S t = max (rv (S ! t) - rv (S ! (t - 1))) 0"

definition loss :: "fval list \<Rightarrow> nat \<Rightarrow> real" where
  "loss S t = max (rv (S ! (t - 1)) - rv (S ! t)) 0"

definition oscillator :: "real \<Rightarrow> fval list \<Rightarrow> nat \<Rightarrow> fval" where
  "oscillator a S t =
     (if t = 0 then NaN
      else (let g = ewma a (gain S) t; l = ewma a (loss S) t
            in if l = 0 then (if g = 0 then NaN else Fin 100)
               else Fin (100 - 100 / (1 + g / l))))"

text \<open>
  The number of rows after the first one that still show the first price: the rows
  before the first change of the price.
\<close>

definition unchanged_rows :: "fval list \<Rightarrow> nat" where
  "unchanged_rows S = length (takeWhile (\<lambda>v. rv v = rv (hd S)) (tl S))"

text \<open>A row of the download with a value in every column, and a finite price.\<close>

definition complete_row :: "price_row \<Rightarrow> bool" where
  "complete_row r = (\<not> is_nan (Open r) \<and> \<not> is_nan (High r) \<and> \<not> is_nan (Low r) \<and>
                     \<not> is_nan (Close r) \<and> finite_val (Adj_Close r) \<and> \<not> is_nan (Volume r))"

text \<open>Panels from top to bottom: each one starts below the end of the one before.\<close>

fun stacked :: "axes list \<Rightarrow> bool" where
  "stacked (a # b # rest) = (last_row a < first_row b \<and> stacked (b # rest))"
| "stacked _ = True"

section \<open>Concrete inputs\<close>

text \<open>
  The configuration of the sidebar as it starts (every box ticked, windows 50, 200 and
  14), a download of three rows with the prices 5, 5, 6 and the frame that
  \<^verbatim>\<open>load_price_data\<close> makes of it, and a download of 250 rows with the prices 1 to 250.
\<close>

definition default_config :: config where
  "default_config =
     \<lparr>sma_1 = True, sma_1_periods = 50, sma_2 = True, sma_2_periods = 200,
      rsi_1 = True, rsi_periods = 14, volume = True\<rparr>"

definition flat_row :: "int \<Rightarrow> real \<Rightarrow> price_row" where
  "flat_row i p =
     \<lparr>idx = i, Open = Fin p, High = Fin p, Low = Fin p, Close = Fin p, Adj_Close = Fin p,
      Volume = Fin 1000\<rparr>"

definition small_data :: "price_row list" where
  "small_data = [flat_row 0 5, flat_row 1 5, flat_row 2 6]"

definition small_frame :: price_frame where
  "small_frame = \<lparr>rsi_label = ''RSI (14)'', frame_rows = [add_rsi (flat_row 2 6) (Fin 100)]\<rparr>"

definition example_data :: "price_row list" where
  "example_data = map (\<lambda>i. flat_row i (real_of_int i)) [1..250]"

text \<open>The number of bars of a panel.\<close>

definition n_bars :: "axes \<Rightarrow> nat" where
  "n_bars a = (case ax_bars a of None \<Rightarrow> 0 | Some (x, height, c) \<Rightarrow> length height)"

text \<open>
  A whole number that is small for a window of \<open>w\<close> rows: the sum of \<open>w + 1\<close> such cells
  stays below \<open>2 ^ 53\<close>, so 64-bit floats add and subtract them without rounding.
\<close>

definition small_whole :: "nat \<Rightarrow> fval \<Rightarrow> bool" where
  "small_whole w v =
     (case v of
        Fin r \<Rightarrow> r = real_of_int \<lfloor>r\<rfloor> \<and> \<bar>r\<bar> * (real w + 1) \<le> 2 ^ 53
      | _ \<Rightarrow> False)"

text \<open>
  A row of the loaded frame with a value in every column, the oscillator included, and a
  finite price of moderate size (differences and weighted sums of such prices stay far
  from the largest 64-bit float).
\<close>

definition row_defined :: "rsi_row \<Rightarrow> bool" where
  "row_defined r = (\<not> is_nan (Open r) \<and> \<not> is_nan (High r) \<and> \<not> is_nan (Low r) \<and>
                    \<not> is_nan (Close r) \<and> \<not> is_nan (Adj_Close r) \<and> \<not> is_nan (Volume r) \<and>
                    \<not> is_nan (RSI r))"


section \<open>Properties\<close>

subsection \<open>The layout of the price chart\<close>

lemma sma_ok: "0 \<le> p \<Longrightarrow> \<exists>y. sma s p = Inr y \<and> length y = length s"
  by (simp add: sma_def rolling_mean_def)

lemma price_panel_ok:
  assumes "sma_1 cfg \<longrightarrow> 0 \<le> sma_1_periods cfg" and "sma_2 cfg \<longrightarrow> 0 \<le> sma_2_periods cfg"
  shows "\<exists>a. price_panel cfg df = Inr a"
proof -
  obtain y1 where y1: "sma_1 cfg \<longrightarrow> sma (map Adj_Close df) (sma_1_periods cfg) = Inr y1"
    using sma_ok [of "sma_1_periods cfg" "map Adj_Close df"] assms(1) by auto
  obtain y2 where y2: "sma_2 cfg \<longrightarrow> sma (map Adj_Close df) (sma_2_periods cfg) = Inr y2"
    using sma_ok [of "sma_2_periods cfg" "map Adj_Close df"] assms(2) by auto
  show ?thesis
    using y1 y2 by (auto simp: price_panel_def Let_def)
qed

lemma price_panel_rows:
  "price_panel cfg df = Inr a \<Longrightarrow> subplot_grid a = (14, 1) \<and> subplot_rows a = (1, 7)"
  by (auto simp: price_panel_def Let_def plot_def subplot_def split: if_splits sum.splits)

lemma price_panel_lines:
  "price_panel cfg df = Inr a \<Longrightarrow>
   length (ax_lines a) = 1 + (if sma_1 cfg then 1 else 0) + (if sma_2 cfg then 1 else 0) \<and>
   (\<forall>l \<in> set (ax_lines a). line_x l = map idx df \<and> length (line_y l) = length df)"
  by (auto simp: price_panel_def Let_def plot_def subplot_def sma_line_def sma_def rolling_mean_def
           split: if_splits sum.splits)

lemma rsi_panel_rows:
  "rsi_panel cfg label df = Inr a \<Longrightarrow>
   subplot_grid a = (14, 1) \<and> subplot_rows a = (9, 10) \<and>
   map h_y (ax_hlines a) = [1, 99, 15, 85, 30, 70] \<and>
   map line_y (ax_lines a) = [map RSI df] \<and> map line_x (ax_lines a) = [map idx df]"
  by (auto simp: rsi_panel_def Let_def plot_def subplot_def axhline_def split: if_splits)

lemma volume_panel_rows:
  "subplot_grid (volume_panel cfg df) = (14, 1) \<and>
   subplot_rows (volume_panel cfg df) = (if rsi_1 cfg then (12, 14) else (9, 10)) \<and>
   ax_bars (volume_panel cfg df) = Some (map idx df, map Volume df, ''white'')"
  by (simp add: volume_panel_def Let_def subplot_def)

lemma plot_price_parts:
  assumes "plot_price cfg pd = Inr (fig, df)"
  shows "price_panel cfg (map add_date (frame_rows pd)) = Inr (ax1 fig)"
    and "case ax2 fig of None \<Rightarrow> \<not> rsi_1 cfg
         | Some a \<Rightarrow> rsi_1 cfg \<and> rsi_panel cfg (rsi_label pd) (map add_date (frame_rows pd)) = Inr a"
    and "ax3 fig = (if volume cfg then Some (volume_panel cfg (map add_date (frame_rows pd))) else None)"
    and "dated_rows df = map add_date (frame_rows pd)"
    and "dated_rsi_label df = rsi_label pd"
  using assms
  by (auto simp: plot_price_def Let_def split: sum.splits if_splits)

lemma plot_price_ok:
  assumes "sma_1 cfg \<longrightarrow> 0 \<le> sma_1_periods cfg" and "sma_2 cfg \<longrightarrow> 0 \<le> sma_2_periods cfg"
      and "rsi_1 cfg \<longrightarrow> rsi_label pd = rsi_column_label (rsi_periods cfg)"
  shows "\<exists>fig df. plot_price cfg pd = Inr (fig, df)"
proof -
  obtain a where a: "price_panel cfg (map add_date (frame_rows pd)) = Inr a"
    using price_panel_ok [OF assms(1,2)] by blast
  show ?thesis
    using a assms(3) by (simp add: plot_price_def Let_def rsi_panel_def)
qed

lemma ax2_rows:
  assumes "plot_price cfg pd = Inr (fig, df)"
  shows "map_option subplot_rows (ax2 fig) = (if rsi_1 cfg then Some (9, 10) else None)"
  using plot_price_parts(2) [OF assms] rsi_panel_rows by (auto split: option.splits)

lemma ax3_rows:
  assumes "plot_price cfg pd = Inr (fig, df)"
  shows "map_option subplot_rows (ax3 fig) =
           (if volume cfg then Some (if rsi_1 cfg then (12, 14) else (9, 10)) else None)"
  using plot_price_parts(3) [OF assms] volume_panel_rows by simp

lemma rsi_label_14: "rsi_column_label 14 = ''RSI (14)''"
  by (simp add: rsi_column_label_def str_int_def str_nat.simps digit_char_def)

text \<open>
  C1, as the code has it: the price panel is on rows 1 to 7 of the grid of 14 rows; the
  oscillator panel, when present, is on rows 9 and 10; the volume panel, when present, is
  on rows 12 to 14 when the oscillator panel is present, and on rows 9 and 10 when it is
  absent. So with both, the volume panel has 3 rows and starts strictly after the end of
  the oscillator panel; without the oscillator panel, the volume panel has 2 rows and
  leaves row 8 free after the price panel.
\<close>

theorem plot_price_rows:
  assumes "plot_price cfg pd = Inr (fig, df)"
  shows "subplot_grid (ax1 fig) = (14, 1) \<and> subplot_rows (ax1 fig) = (1, 7) \<and>
         map_option subplot_rows (ax2 fig) = (if rsi_1 cfg then Some (9, 10) else None) \<and>
         map_option subplot_rows (ax3 fig) =
           (if volume cfg then Some (if rsi_1 cfg then (12, 14) else (9, 10)) else None) \<and>
         (\<forall>v w. ax3 fig = Some v \<and> ax2 fig = Some w \<longrightarrow>
                 n_rows v = 3 \<and> last_row w < first_row v) \<and>
         (\<forall>v. ax3 fig = Some v \<and> ax2 fig = None \<longrightarrow>
                 n_rows v = 2 \<and> first_row v = last_row (ax1 fig) + 2)"
proof -
  have a1: "subplot_grid (ax1 fig) = (14, 1) \<and> subplot_rows (ax1 fig) = (1, 7)"
    using price_panel_rows [OF plot_price_parts(1) [OF assms]] .
  show ?thesis using a1 ax2_rows [OF assms] ax3_rows [OF assms]
    by (auto simp: n_rows_def first_row_def last_row_def split: if_splits)
qed

theorem plot_price_rows_witness:
  "subplot_rows (ax1 (fst (projr (plot_price default_config small_frame)))) = (1, 7) \<and>
   map_option subplot_rows (ax2 (fst (projr (plot_price default_config small_frame)))) =
     Some (9, 10) \<and>
   map_option subplot_rows (ax3 (fst (projr (plot_price default_config small_frame)))) =
     Some (12, 14) \<and>
   map_option n_rows (ax3 (fst (projr (plot_price default_config small_frame)))) = Some 3"
proof -
  obtain fig df where p: "plot_price default_config small_frame = Inr (fig, df)"
    using plot_price_ok [of default_config small_frame]
    by (auto simp: default_config_def small_frame_def rsi_label_14)
  show ?thesis
    using plot_price_rows [OF p] p
    by (cases "ax3 fig"; cases "ax2 fig") (auto simp: default_config_def)
qed

text \<open>
  The claim of C1 as it was written fails where the volume panel is switched on and the
  oscillator panel is switched off: the volume panel is then on rows 9 and 10, which are
  two rows and do not follow row 7 directly.
\<close>

theorem volume_rows_counterexample:
  "\<not> isl (plot_price (default_config\<lparr>rsi_1 := False\<rparr>) small_frame) \<and>
   subplot_rows (ax1 (fst (projr (plot_price (default_config\<lparr>rsi_1 := False\<rparr>) small_frame))))
     = (1, 7) \<and>
   map_option subplot_rows
     (ax3 (fst (projr (plot_price (default_config\<lparr>rsi_1 := False\<rparr>) small_frame))))
     = Some (9, 10) \<and>
   map_option n_rows
     (ax3 (fst (projr (plot_price (default_config\<lparr>rsi_1 := False\<rparr>) small_frame))))
     = Some 2"
  by (simp add: plot_price_def price_panel_def Let_def sma_def rolling_mean_def
        volume_panel_def subplot_def plot_def sma_line_def default_config_def
        small_frame_def n_rows_def first_row_def last_row_def)


subsection \<open>The moving average\<close>

lemma calc_mean_short: "length win < w \<Longrightarrow> calc_mean w win = NaN"
proof -
  assume a: "length win < w"
  have "length (filter (\<lambda>v. \<not> is_nan v \<and> \<not> is_inf v) win) \<le> length win"
    by (rule length_filter_le)
  with a have "\<not> w \<le> length (filter (\<lambda>v. \<not> is_nan v \<and> \<not> is_inf v) win)" by linarith
  then show ?thesis by (simp add: calc_mean_def Let_def)
qed

lemma length_window_at: "i < length xs \<Longrightarrow> length (window_at xs w i) = min w (Suc i)"
  by (auto simp: window_at_def)

lemma window_at_full:
  "i < length xs \<Longrightarrow> w \<le> Suc i \<Longrightarrow> window_at xs w i = take w (drop (Suc i - w) xs)"
  by (simp add: window_at_def take_drop)

text \<open>
  C8: a series with fewer rows than the window yields a moving average of the same
  length with every value undefined, and no error.
\<close>

theorem sma_short:
  assumes "length S < nat w"
  shows "sma S w = Inr (replicate (length S) NaN)"
proof -
  have w: "\<not> w < 0" using assms by simp
  have "calc_mean (nat w) (window_at S (nat w) i) = NaN" if "i < length S" for i
    using that assms by (intro calc_mean_short) (simp add: length_window_at)
  then have "map (\<lambda>i. calc_mean (nat w) (window_at S (nat w) i)) [0..<length S]
             = replicate (length S) NaN"
    by (intro nth_equalityI) auto
  then show ?thesis using w by (simp add: sma_def rolling_mean_def)
qed

theorem sma_short_witness:
  "length [Fin 1, Fin 2] < nat 5 \<and> sma [Fin 1, Fin 2] 5 = Inr [NaN, NaN]"
  using sma_short [of "[Fin 1, Fin 2]" 5] by simp

lemma fadd_NaN_right [simp]: "fadd a NaN = NaN"
  by (cases a) auto

lemma foldl_fadd_NaN [simp]: "foldl fadd NaN xs = NaN"
  by (induction xs) auto

lemma foldl_fadd_has_nan: "\<exists>x\<in>set xs. is_nan x \<Longrightarrow> foldl fadd a xs = NaN"
proof (induction xs arbitrary: a)
  case Nil
  then show ?case by simp
next
  case (Cons x xs)
  show ?case
  proof (cases "is_nan x")
    case True
    then have "x = NaN" by (cases x) auto
    then show ?thesis by simp
  next
    case False
    then show ?thesis using Cons by auto
  qed
qed

lemma foldl_fadd_finite:
  "\<forall>x\<in>set xs. finite_val x \<Longrightarrow> foldl fadd (Fin r) xs = Fin (r + sum_list (map rv xs))"
proof (induction xs arbitrary: r)
  case Nil
  then show ?case by simp
next
  case (Cons x xs)
  then have "finite_val x" by simp
  then have "fadd (Fin r) x = Fin (r + rv x)"
    by (cases x) (auto simp: finite_val_def)
  then show ?case using Cons by (simp add: add.assoc)
qed

lemma fdiv_Fin_pos: "0 < d \<Longrightarrow> fdiv (Fin s) (Fin d) = Fin (s / d)"
  by (simp add: fdiv_def zero_s_def)

lemma arithmetic_mean_finite:
  assumes "\<forall>x\<in>set xs. finite_val x" "xs \<noteq> []"
  shows "arithmetic_mean xs = Fin (sum_list (map rv xs) / real (length xs))"
  using assms foldl_fadd_finite [OF assms(1), of 0]
  by (simp add: arithmetic_mean_def fdiv_Fin_pos)

lemma arithmetic_mean_nan:
  assumes "\<exists>x\<in>set xs. is_nan x"
  shows "arithmetic_mean xs = NaN"
  using foldl_fadd_has_nan [OF assms] by (simp add: arithmetic_mean_def fdiv_def)

lemma calc_mean_window:
  assumes "length win = w" "0 < w" "\<forall>x\<in>set win. \<not> is_inf x"
  shows "calc_mean w win = arithmetic_mean win"
proof (cases "\<exists>x\<in>set win. is_nan x")
  case True
  then obtain x where x: "x \<in> set win" "is_nan x" by blast
  then have "length (filter (\<lambda>v. \<not> is_nan v \<and> \<not> is_inf v) win) < length win"
    by (intro length_filter_less [of x]) auto
  then have "\<not> w \<le> length (filter (\<lambda>v. \<not> is_nan v \<and> \<not> is_inf v) win)"
    using assms(1) by simp
  then show ?thesis
    using arithmetic_mean_nan [OF True] by (simp add: calc_mean_def Let_def)
next
  case False
  then have f: "filter (\<lambda>v. \<not> is_nan v \<and> \<not> is_inf v) win = win"
    using assms(3) by (auto simp: filter_id_conv)
  have fin: "\<forall>x\<in>set win. finite_val x" using False assms(3) by (simp add: finite_val_def)
  have ne: "win \<noteq> []" using assms(1,2) by auto
  show ?thesis
    using assms(1,2) ne arithmetic_mean_finite [OF fin ne] by (simp add: calc_mean_def Let_def f)
qed

lemma calc_mean_early: "i < length S \<Longrightarrow> Suc i < w \<Longrightarrow> calc_mean w (window_at S w i) = NaN"
  by (intro calc_mean_short) (simp add: length_window_at)

lemma calc_mean_gap:
  assumes "length win = w" "\<exists>x\<in>set win. is_nan x \<or> is_inf x"
  shows "calc_mean w win = NaN"
proof -
  obtain x where x: "x \<in> set win" "is_nan x \<or> is_inf x" using assms(2) by blast
  then have "length (filter (\<lambda>v. \<not> is_nan v \<and> \<not> is_inf v) win) < length win"
    by (intro length_filter_less [of x]) auto
  then have "\<not> w \<le> length (filter (\<lambda>v. \<not> is_nan v \<and> \<not> is_inf v) win)"
    using assms(1) by simp
  then show ?thesis by (simp add: calc_mean_def Let_def)
qed

lemma small_whole_finite: "small_whole w v \<Longrightarrow> \<not> is_nan v \<and> \<not> is_inf v"
  by (cases v) (auto simp: small_whole_def)

text \<open>
  C5, as the code has it: for a window \<open>w\<close> with \<open>1 \<le> w \<le> len(S)\<close>, the moving average is
  undefined at every index before \<open>w - 1\<close>, and at every index \<open>i \<ge> w - 1\<close> whose window
  \<open>S[i - w + 1 .. i]\<close> holds a missing or an infinite cell. In a series whose cells are
  missing, infinite or whole numbers that are small for the window, it is the arithmetic
  mean of the window wherever the window holds numbers only.
\<close>

theorem sma_mean:
  assumes "1 \<le> w" "nat w \<le> length S"
  shows "\<exists>R. sma S w = Inr R \<and> length R = length S \<and>
           (\<forall>i<length S.
              (i < nat w - 1 \<longrightarrow> R ! i = NaN) \<and>
              (nat w - 1 \<le> i \<and>
               (\<exists>v\<in>set (take (nat w) (drop (i + 1 - nat w) S)). is_nan v \<or> is_inf v) \<longrightarrow>
                 R ! i = NaN) \<and>
              (nat w - 1 \<le> i \<and>
               (\<forall>v\<in>set S. small_whole (nat w) v \<or> is_nan v \<or> is_inf v) \<and>
               (\<forall>v\<in>set (take (nat w) (drop (i + 1 - nat w) S)). small_whole (nat w) v) \<longrightarrow>
                 R ! i = arithmetic_mean (take (nat w) (drop (i + 1 - nat w) S))))"
proof -
  let ?w = "nat w"
  let ?R = "map (\<lambda>i. calc_mean ?w (window_at S ?w i)) [0..<length S]"
  have w0: "0 < ?w" using assms(1) by simp
  have R: "sma S w = Inr ?R" using assms(1) by (simp add: sma_def rolling_mean_def)
  have "(i < ?w - 1 \<longrightarrow> ?R ! i = NaN) \<and>
        (?w - 1 \<le> i \<and>
         (\<exists>v\<in>set (take ?w (drop (i + 1 - ?w) S)). is_nan v \<or> is_inf v) \<longrightarrow> ?R ! i = NaN) \<and>
        (?w - 1 \<le> i \<and>
         (\<forall>v\<in>set S. small_whole ?w v \<or> is_nan v \<or> is_inf v) \<and>
         (\<forall>v\<in>set (take ?w (drop (i + 1 - ?w) S)). small_whole ?w v) \<longrightarrow>
           ?R ! i = arithmetic_mean (take ?w (drop (i + 1 - ?w) S)))"
    if i: "i < length S" for i
  proof (cases "i < ?w - 1")
    case True
    then have "Suc i < ?w" by simp
    then show ?thesis using calc_mean_early [OF i] True i by simp
  next
    case False
    then have le: "?w \<le> Suc i" by simp
    let ?win = "take ?w (drop (Suc i - ?w) S)"
    have win: "window_at S ?w i = ?win"
      using window_at_full [OF i le] .
    have len: "length ?win = ?w" using i le by simp
    have ri: "?R ! i = calc_mean ?w ?win" using i win by simp
    have gap: "(\<exists>v\<in>set ?win. is_nan v \<or> is_inf v) \<longrightarrow> ?R ! i = NaN"
      using calc_mean_gap [OF len] ri by simp
    have mean: "(\<forall>v\<in>set ?win. small_whole ?w v) \<longrightarrow> ?R ! i = arithmetic_mean ?win"
    proof
      assume a: "\<forall>v\<in>set ?win. small_whole ?w v"
      then have "\<forall>x\<in>set ?win. \<not> is_inf x" using small_whole_finite by blast
      from calc_mean_window [OF len w0 this] show "?R ! i = arithmetic_mean ?win"
        using ri by simp
    qed
    show ?thesis using False gap mean by simp
  qed
  then show ?thesis using R by simp
qed

theorem sma_mean_witness:
  "(1::int) \<le> 2 \<and> nat 2 \<le> length [Fin 1, Fin 2, NaN, Fin 4, Fin 7] \<and>
   sma [Fin 1, Fin 2, NaN, Fin 4, Fin 7] 2 = Inr [NaN, Fin (3 / 2), NaN, NaN, Fin (11 / 2)] \<and>
   projr (sma [Fin 1, Fin 2, NaN, Fin 4, Fin 7] 2) ! 0 = NaN \<and>
   projr (sma [Fin 1, Fin 2, NaN, Fin 4, Fin 7] 2) ! 2 = NaN \<and>
   projr (sma [Fin 1, Fin 2, NaN, Fin 4, Fin 7] 2) ! 4 = arithmetic_mean [Fin 4, Fin 7]"
  using sma_mean [of 2 "[Fin 1, Fin 2, NaN, Fin 4, Fin 7]"]
  by (simp add: sma_def rolling_mean_def calc_mean_def window_at_def arithmetic_mean_def
        fdiv_def upt_rec)

text \<open>
  The claim of C5 as it was written fails on a series with an infinite cell: the
  arithmetic mean of the windows that hold it is infinite, and the moving average is
  undefined there.
\<close>

theorem sma_infinite_counterexample:
  "sma [Fin 1, PInf, Fin 3] 2 = Inr [NaN, NaN, NaN] \<and>
   arithmetic_mean [Fin 1, PInf] = PInf \<and> arithmetic_mean [PInf, Fin 3] = PInf"
  by (simp add: sma_def rolling_mean_def calc_mean_def window_at_def arithmetic_mean_def
        fdiv_def inf_s_def upt_rec)


subsection \<open>The range of the oscillator\<close>

lemma length_diff_from [simp]: "length (diff_from p xs) = length xs"
  by (induction xs arbitrary: p) auto

lemma length_series_diff [simp]: "length (series_diff xs) = length xs"
  by (cases xs) auto

lemma length_ewm_loop [simp]: "length (ewm_loop a w ow n xs) = length xs"
  by (induction xs arbitrary: w ow n) (auto simp: Let_def split: prod.splits)

lemma prep_values_simps [simp]:
  "prep_values [] = []"
  "prep_values (x # xs) = (if is_inf x then NaN else x) # prep_values xs"
  "length (prep_values xs) = length xs"
  by (simp_all add: prep_values_def)

lemma ewm_mean_ok: "0 \<le> com \<Longrightarrow> \<exists>R. ewm_mean com xs = Inr R \<and> length R = length xs"
  by (cases xs) (auto simp: ewm_mean_def Let_def)

lemma rsi_ok:
  assumes "1 \<le> p"
  shows "\<exists>U D. rsi_ema_up S p = Inr U \<and> rsi_ema_down S p = Inr D \<and> length U = length S \<and>
           length D = length S \<and> rsi S p = Inr (map2 rsi_value U D)"
proof -
  obtain U where U: "ewm_mean (p - 1) (rsi_up S) = Inr U" "length U = length (rsi_up S)"
    using ewm_mean_ok [of "p - 1" "rsi_up S"] assms by auto
  obtain D where D: "ewm_mean (p - 1) (rsi_down S) = Inr D" "length D = length (rsi_down S)"
    using ewm_mean_ok [of "p - 1" "rsi_down S"] assms by auto
  show ?thesis using U D
    by (simp add: rsi_def rsi_ema_up_def rsi_ema_down_def rsi_up_def rsi_down_def rsi_delta_def)
qed

lemma nn_clip_lower: "nn (clip_lower (Fin 0) v)"
  by (cases v) (auto simp: clip_lower_def)

lemma nn_down: "nn (fmul (Fin (- 1)) (clip_upper (Fin 0) v))"
  by (cases v) (auto simp: clip_upper_def fmul_def zero_s_def inf_s_def)

lemma nn_fadd: "nn a \<Longrightarrow> nn b \<Longrightarrow> nn (fadd a b)"
  by (cases a; cases b) auto

lemma nn_fmul: "0 \<le> k \<Longrightarrow> nn a \<Longrightarrow> nn (fmul (Fin k) a)"
  by (cases a) (auto simp: fmul_def zero_s_def inf_s_def)

lemma nn_fdiv: "0 < k \<Longrightarrow> nn a \<Longrightarrow> nn (fdiv a (Fin k))"
  by (cases a) (auto simp: fdiv_def zero_s_def inf_s_def)

lemma nn_ewm_step:
  assumes "0 < a" "a \<le> 1" "0 \<le> ow" "nn w" "nn c"
  shows "nn (fst (ewm_step a w ow c)) \<and> 0 \<le> snd (ewm_step a w ow c)"
proof -
  have "0 \<le> ow * (1 - a)" using assms by simp
  moreover have "0 < ow * (1 - a) + a" using assms calculation by linarith
  ultimately show ?thesis
    using assms by (auto simp: ewm_step_def Let_def intro!: nn_fdiv nn_fadd nn_fmul)
qed

lemma nn_ewm_loop:
  assumes "0 < a" "a \<le> 1"
  shows "0 \<le> ow \<Longrightarrow> nn w \<Longrightarrow> \<forall>c\<in>set xs. nn c \<Longrightarrow> \<forall>v\<in>set (ewm_loop a w ow n xs). nn v"
proof (induction xs arbitrary: w ow n)
  case Nil
  then show ?case by simp
next
  case (Cons c xs)
  obtain w' ow' where st: "ewm_step a w ow c = (w', ow')" by (cases "ewm_step a w ow c")
  have "nn w' \<and> 0 \<le> ow'"
    using nn_ewm_step [OF assms Cons.prems(1,2), of c] Cons.prems(3) st by simp
  then show ?case
    using Cons.IH [of ow' w'] Cons.prems(3) st by (auto simp: Let_def)
qed

lemma nn_prep_values: "\<forall>c\<in>set xs. nn c \<Longrightarrow> \<forall>c\<in>set (prep_values xs). nn c"
  by (auto simp: prep_values_def)

lemma nn_ewm_mean:
  assumes "0 \<le> com" "\<forall>c\<in>set xs. nn c" "ewm_mean com xs = Inr R"
  shows "\<forall>v\<in>set R. nn v"
proof (cases "prep_values xs")
  case Nil
  then show ?thesis using assms by (simp add: ewm_mean_def)
next
  case (Cons x rest)
  have a: "0 < 1 / (1 + real_of_int com)" "1 / (1 + real_of_int com) \<le> 1"
    using assms(1) by auto
  have nx: "nn x" "\<forall>c\<in>set rest. nn c" using nn_prep_values [OF assms(2)] Cons by simp_all
  have "\<forall>v\<in>set (ewm_loop (1 / (1 + real_of_int com)) x 1 n rest). nn v" for n
    using nn_ewm_loop [OF a, of 1 x rest n] nx by simp
  then show ?thesis
    using assms(1,3) nx Cons by (auto simp: ewm_mean_def Let_def)
qed

lemma osc_bounds:
  fixes q :: real
  assumes "0 \<le> q"
  shows "0 \<le> 100 - 100 / (1 + q)" and "100 - 100 / (1 + q) \<le> 100"
proof -
  have "100 / (1 + q) \<le> 100 / 1"
    using assms by (intro divide_left_mono) auto
  then show "0 \<le> 100 - 100 / (1 + q)" by simp
  have "0 \<le> 100 / (1 + q)" using assms by simp
  then show "100 - 100 / (1 + q) \<le> 100" by simp
qed

lemma rsi_value_fin:
  assumes "0 < a" "0 < b"
  shows "rsi_value (Fin a) (Fin b) = Fin (100 - 100 / (1 + a / b))"
proof -
  have "1 + a / b \<noteq> 0" using assms by (smt (verit) divide_pos_pos)
  then show ?thesis using assms
    by (simp add: rsi_value_def fdiv_def fsub_def Let_def)
qed

lemma rsi_value_range:
  assumes "nn u" "nn d"
  shows "rsi_value u d = NaN \<or> (\<exists>r. rsi_value u d = Fin r \<and> 0 \<le> r \<and> r \<le> 100)"
proof (cases "\<exists>a b. u = Fin a \<and> d = Fin b \<and> 0 < a \<and> 0 < b")
  case True
  then obtain a b where ab: "u = Fin a" "d = Fin b" "0 < a" "0 < b" by blast
  have "0 \<le> a / b" using ab by simp
  from osc_bounds [OF this] show ?thesis
    using rsi_value_fin [OF ab(3,4)] ab by simp
next
  case False
  then show ?thesis using assms
    by (cases u; cases d)
       (auto simp: rsi_value_def fdiv_def fsub_def zero_s_def inf_s_def Let_def)
qed

lemma rsi_value_saturates:
  assumes "nn u" "is_zero d" "\<not> is_zero u" "\<not> is_nan u"
  shows "rsi_value u d = Fin 100"
  using assms
  by (cases u; cases d) (auto simp: rsi_value_def fdiv_def fsub_def zero_s_def inf_s_def Let_def)

lemma rsi_value_zero_zero:
  assumes "is_zero d" "is_zero u"
  shows "rsi_value u d = NaN"
  using assms
  by (cases u; cases d) (auto simp: rsi_value_def fdiv_def fsub_def zero_s_def inf_s_def Let_def)

lemma nn_rsi_up: "\<forall>c\<in>set (rsi_up S). nn c"
  by (auto simp: rsi_up_def nn_clip_lower)

lemma nn_rsi_down: "\<forall>c\<in>set (rsi_down S). nn c"
  by (auto simp: rsi_down_def nn_down)

text \<open>
  C3, as the code has it: for every series and every \<open>periods \<ge> 1\<close> the oscillator
  returns a series of the length of the input whose every defined value lies in
  \<open>[0, 100]\<close>; where the smoothed loss is zero and the smoothed gain is a value other than
  zero, the oscillator is 100; where both are zero, it is undefined.
\<close>

theorem rsi_range:
  assumes "1 \<le> periods"
  shows "\<exists>R U D. rsi S periods = Inr R \<and> rsi_ema_up S periods = Inr U \<and>
           rsi_ema_down S periods = Inr D \<and>
           length R = length S \<and> length U = length S \<and> length D = length S \<and>
           (\<forall>t<length S.
              (R ! t = NaN \<or> (\<exists>r. R ! t = Fin r \<and> 0 \<le> r \<and> r \<le> 100)) \<and>
              (is_zero (D ! t) \<and> \<not> is_zero (U ! t) \<and> \<not> is_nan (U ! t) \<longrightarrow> R ! t = Fin 100) \<and>
              (is_zero (D ! t) \<and> is_zero (U ! t) \<longrightarrow> R ! t = NaN))"
proof -
  obtain U D where UD: "rsi_ema_up S periods = Inr U" "rsi_ema_down S periods = Inr D"
      "length U = length S" "length D = length S" "rsi S periods = Inr (map2 rsi_value U D)"
    using rsi_ok [OF assms, of S] by blast
  have com: "0 \<le> periods - 1" using assms by simp
  have nU: "\<forall>v\<in>set U. nn v"
    using nn_ewm_mean [OF com nn_rsi_up] UD(1) by (simp add: rsi_ema_up_def)
  have nD: "\<forall>v\<in>set D. nn v"
    using nn_ewm_mean [OF com nn_rsi_down] UD(2) by (simp add: rsi_ema_down_def)
  have "(map2 rsi_value U D ! t = NaN \<or>
           (\<exists>r. map2 rsi_value U D ! t = Fin r \<and> 0 \<le> r \<and> r \<le> 100)) \<and>
        (is_zero (D ! t) \<and> \<not> is_zero (U ! t) \<and> \<not> is_nan (U ! t) \<longrightarrow>
           map2 rsi_value U D ! t = Fin 100) \<and>
        (is_zero (D ! t) \<and> is_zero (U ! t) \<longrightarrow> map2 rsi_value U D ! t = NaN)"
    if t: "t < length S" for t
  proof -
    have u: "nn (U ! t)" using nU t UD(3) by simp
    have d: "nn (D ! t)" using nD t UD(4) by simp
    have v: "map2 rsi_value U D ! t = rsi_value (U ! t) (D ! t)"
      using t UD(3,4) by simp
    show ?thesis
      using rsi_value_range [OF u d] rsi_value_saturates [OF u] rsi_value_zero_zero v by auto
  qed
  then show ?thesis using UD by simp
qed

lemmas rsi_eval =
  rsi_def rsi_ema_up_def rsi_ema_down_def rsi_up_def rsi_down_def rsi_delta_def
  ewm_mean_def ewm_step_def rsi_value_def fsub_def fdiv_def fmul_def clip_lower_def
  clip_upper_def feq_def zero_s_def inf_s_def

theorem rsi_range_witness:
  "(1::int) \<le> 14 \<and> rsi [Fin 5, Fin 5, Fin 6] 14 = Inr [NaN, NaN, Fin 100] \<and>
   rsi_ema_up [Fin 5, Fin 5, Fin 6] 14 = Inr [NaN, Fin 0, Fin (1 / 14)] \<and>
   rsi_ema_down [Fin 5, Fin 5, Fin 6] 14 = Inr [NaN, NZero, NZero]"
  using rsi_range [of 14 "[Fin 5, Fin 5, Fin 6]"] by (simp add: rsi_eval)

text \<open>
  The claim of C3 as it was written fails on a series without any price movement: the
  smoothed loss and the smoothed gain are both zero, and the oscillator is undefined
  there, not 100.
\<close>

theorem rsi_flat_counterexample:
  "rsi_ema_up [Fin 5, Fin 5, Fin 5] 14 = Inr [NaN, Fin 0, Fin 0] \<and>
   rsi_ema_down [Fin 5, Fin 5, Fin 5] 14 = Inr [NaN, NZero, NZero] \<and>
   rsi [Fin 5, Fin 5, Fin 5] 14 = Inr [NaN, NaN, NaN]"
  by (simp add: rsi_eval)


subsection \<open>The ownership chart\<close>

lemma fsub_100: "fsub (Fin 100) (Fin p) = Fin (100 - p)"
  by (simp add: fsub_def)

lemma pie_ok:
  assumes "0 \<le> p" "p \<le> 100"
  shows "pie k (Fin p) label ttl =
           Inr \<lparr>pie_subplot = (1, 5, k), pie_x = [Fin p, Fin (100 - p)],
                pie_colors = [''black'', ''white''], pie_labels = [Some label, None],
                pie_counterclock = False, pie_startangle = 90, pie_edgecolor = ''k'',
                pie_title = ttl\<rparr>"
  using assms by (simp add: pie_def fsub_100 flt_def Let_def)

lemmas py_float_eval =
  py_float_def to_ascii_def strip_def is_space_def lower_def number_def digitpart_def
  is_digit_def
  digit_val_def exponent_def nat_of_digits_def scale10_def zero_s_def

text \<open>
  C7, as the code has it: the three cells of rows 0, 1 and 2 of column 0 of the table
  are the labels, and the percentage of a cell is the cell without its last character,
  read as a number. For percentages in \<open>[0, 100]\<close> the builder produces, in columns 1, 3
  and 5 of a grid of five columns, a chart with the slice values
  \<open>[percentage, 100 - percentage]\<close>, the labels \<open>[cell, None]\<close>, the start angle 90,
  clockwise order and the colours black and white.
\<close>

theorem plot_major_holders_charts:
  assumes "cell major_holders 0 0 = Inr s0" "py_float (butlast s0) = Inr (Fin p0)"
      and "cell major_holders 0 1 = Inr s1" "py_float (butlast s1) = Inr (Fin p1)"
      and "cell major_holders 0 2 = Inr s2" "py_float (butlast s2) = Inr (Fin p2)"
      and "0 \<le> p0" "p0 \<le> 100" "0 \<le> p1" "p1 \<le> 100" "0 \<le> p2" "p2 \<le> 100"
  shows "plot_major_holders major_holders =
           Inr [\<lparr>pie_subplot = (1, 5, 1), pie_x = [Fin p0, Fin (100 - p0)],
                 pie_colors = [''black'', ''white''], pie_labels = [Some s0, None],
                 pie_counterclock = False, pie_startangle = 90, pie_edgecolor = ''k'',
                 pie_title = ''% of Shares Held by Insiders''\<rparr>,
                \<lparr>pie_subplot = (1, 5, 3), pie_x = [Fin p1, Fin (100 - p1)],
                 pie_colors = [''black'', ''white''], pie_labels = [Some s1, None],
                 pie_counterclock = False, pie_startangle = 90, pie_edgecolor = ''k'',
                 pie_title = ''% of Shares Held by Institutions''\<rparr>,
                \<lparr>pie_subplot = (1, 5, 5), pie_x = [Fin p2, Fin (100 - p2)],
                 pie_colors = [''black'', ''white''], pie_labels = [Some s2, None],
                 pie_counterclock = False, pie_startangle = 90, pie_edgecolor = ''k'',
                 pie_title = ''% of Float Held by Institutions''\<rparr>]"
proof -
  have "ptc_of major_holders 0 = Inr (Fin p0)" "ptc_of major_holders 1 = Inr (Fin p1)"
       "ptc_of major_holders 2 = Inr (Fin p2)"
    using assms(1-6) by (simp_all add: ptc_of_def)
  then show ?thesis
    using assms(1,3,5) pie_ok [OF assms(7,8)] pie_ok [OF assms(9,10)] pie_ok [OF assms(11,12)]
    by (simp add: plot_major_holders_def)
qed

theorem plot_major_holders_charts_witness:
  "map pie_x (projr (plot_major_holders [(0, [''47.3%'', ''20.5%'', ''30%''])])) =
     [[Fin 47.3, Fin 52.7], [Fin 20.5, Fin 79.5], [Fin 30, Fin 70]] \<and>
   map pie_subplot (projr (plot_major_holders [(0, [''47.3%'', ''20.5%'', ''30%''])])) =
     [(1, 5, 1), (1, 5, 3), (1, 5, 5)]"
proof -
  have c: "cell [(0, [''47.3%'', ''20.5%'', ''30%''])] 0 0 = Inr ''47.3%''"
          "cell [(0, [''47.3%'', ''20.5%'', ''30%''])] 0 1 = Inr ''20.5%''"
          "cell [(0, [''47.3%'', ''20.5%'', ''30%''])] 0 2 = Inr ''30%''"
    by (simp_all add: cell_def)
  have f: "py_float (butlast ''47.3%'') = Inr (Fin 47.3)"
          "py_float (butlast ''20.5%'') = Inr (Fin 20.5)"
          "py_float (butlast ''30%'') = Inr (Fin 30)"
    by (simp_all add: py_float_eval)
  show ?thesis
    using plot_major_holders_charts [OF c(1) f(1) c(2) f(2) c(3) f(3)] by simp
qed

text \<open>
  The claim of C7 as it was written fails on its own example: the label of a slice is
  the cell that holds the percentage, so the cell "47.3%" gives the label "47.3%", and a
  cell "Insiders" is not a number and raises \<^verbatim>\<open>ValueError\<close>.
\<close>

theorem holders_label_counterexample:
  "map pie_labels (projr (plot_major_holders [(0, [''47.3%'', ''20.5%'', ''30%''])])) =
     [[Some ''47.3%'', None], [Some ''20.5%'', None], [Some ''30%'', None]] \<and>
   map pie_x (projr (plot_major_holders [(0, [''47.3%'', ''20.5%'', ''30%''])])) =
     [[Fin 47.3, Fin 52.7], [Fin 20.5, Fin 79.5], [Fin 30, Fin 70]] \<and>
   plot_major_holders [(0, [''Insiders'', ''20.5%'', ''30%''])] = Inl ValueError"
  by (simp add: plot_major_holders_def ptc_of_def cell_def py_float_eval pie_def fsub_def
        flt_def)

text \<open>
  The white space of \<^verbatim>\<open>float\<close>: a file separator before the number is not dropped and makes
  the text no number; a no-break space after it is dropped.
\<close>

lemma py_float_white_space:
  "py_float (CHR 0x1C # ''47.3'') = Inl ValueError \<and>
   py_float (''47.3'' @ [CHR 0xA0]) = Inr (Fin 47.3) \<and>
   py_float ('' 47.3'' @ [CHR 0x0A]) = Inr (Fin 47.3)"
  by (simp add: py_float_eval)

lemma pie_refuses:
  "pie 1 NaN l t = Inl ValueError \<and> pie 1 PInf l t = Inl ValueError \<and>
   pie 1 (Fin 120) l t = Inl ValueError"
  by (simp add: pie_def fsub_def flt_def)


subsection \<open>The frame after the fetch, and the panels\<close>

lemma truncate_add_rsi [simp]: "price_row.truncate (add_rsi r v) = r"
  by (simp add: add_rsi_def price_row.truncate_def price_row.defs rsi_row.defs)

lemma RSI_add_rsi [simp]: "RSI (add_rsi r v) = v"
  by (simp add: add_rsi_def price_row.defs rsi_row.defs)

lemma truncate_add_date [simp]: "rsi_row.truncate (add_date r) = r"
  by (simp add: add_date_def rsi_row.truncate_def rsi_row.defs dated_row.defs price_row.defs)

lemma add_date_fields [simp]:
  "Date (add_date r) = idx r" "idx (add_date r) = idx r" "Adj_Close (add_date r) = Adj_Close r"
  "Volume (add_date r) = Volume r" "RSI (add_date r) = RSI r"
  by (simp_all add: add_date_def rsi_row.defs dated_row.defs price_row.defs)

lemma add_rsi_fields [simp]:
  "idx (add_rsi r v) = idx r" "Open (add_rsi r v) = Open r" "High (add_rsi r v) = High r"
  "Low (add_rsi r v) = Low r" "Close (add_rsi r v) = Close r"
  "Adj_Close (add_rsi r v) = Adj_Close r" "Volume (add_rsi r v) = Volume r"
  by (simp_all add: add_rsi_def price_row.defs rsi_row.defs)

lemma load_price_data_ok:
  assumes "1 \<le> p"
  shows "\<exists>R. rsi (map Adj_Close data) p = Inr R \<and> length R = length data \<and>
           load_price_data data p =
             Inr \<lparr>rsi_label = rsi_column_label p, frame_rows = dropna (map2 add_rsi data R)\<rparr>"
proof -
  obtain R where R: "rsi (map Adj_Close data) p = Inr R" "length R = length data"
    using rsi_ok [OF assms, of "map Adj_Close data"] by auto
  then show ?thesis by (simp add: load_price_data_def)
qed

lemma load_price_data_rows:
  assumes "load_price_data data p = Inr pd"
  shows "\<exists>R. rsi (map Adj_Close data) p = Inr R \<and> rsi_label pd = rsi_column_label p \<and>
           frame_rows pd = dropna (map2 add_rsi data R)"
  using assms by (auto simp: load_price_data_def split: sum.splits)


lemma rsi_first_nan:
  assumes "rsi (x # xs) p = Inr R"
  shows "\<exists>R'. R = NaN # R' \<and> length R' = length xs"
proof -
  have p: "\<not> p - 1 < 0" using assms by (auto simp: rsi_def rsi_ema_up_def ewm_mean_def split: if_splits)
  have u: "rsi_up (x # xs) = NaN # map (clip_lower (Fin 0)) (diff_from x xs)"
    by (simp add: rsi_up_def rsi_delta_def clip_lower_def)
  have d: "rsi_down (x # xs) =
             NaN # map (\<lambda>v. fmul (Fin (- 1)) (clip_upper (Fin 0) v)) (diff_from x xs)"
    by (simp add: rsi_down_def rsi_delta_def clip_upper_def fmul_def)
  show ?thesis
    using assms p
    by (auto simp: rsi_def rsi_ema_up_def rsi_ema_down_def u d ewm_mean_def Let_def
          rsi_value_def fdiv_def fsub_def)
qed

lemma has_na_add_rsi_NaN [simp]: "has_na (add_rsi r NaN)"
  by (simp add: has_na_def)

lemma length_dropna_le: "length (dropna rs) \<le> length rs"
  by (simp add: dropna_def)

lemma map_truncate_map2:
  "length R = length data \<Longrightarrow> map price_row.truncate (map2 add_rsi data R) = data"
  by (induction data arbitrary: R) (auto simp: length_Suc_conv)

lemma subseq_dropna:
  assumes "length R = length data"
  shows "subseq (map price_row.truncate (dropna (map2 add_rsi data R))) data"
proof -
  have "subseq (map price_row.truncate (dropna (map2 add_rsi data R)))
               (map price_row.truncate (map2 add_rsi data R))"
    unfolding dropna_def by (intro subseq_map subseq_filter_left)
  then show ?thesis using map_truncate_map2 [OF assms] by simp
qed

lemma load_drops_first:
  assumes "load_price_data data p = Inr pd" "data \<noteq> []"
  shows "length (frame_rows pd) < length data"
proof -
  obtain r rest where data: "data = r # rest" using assms(2) by (cases data) auto
  obtain R where R: "rsi (map Adj_Close data) p = Inr R"
      "frame_rows pd = dropna (map2 add_rsi data R)"
    using load_price_data_rows [OF assms(1)] by blast
  obtain R' where R': "R = NaN # R'" "length R' = length rest"
    using rsi_first_nan [of "Adj_Close r" "map Adj_Close rest" p R] R(1) data by auto
  have "frame_rows pd = dropna (map2 add_rsi rest R')"
    using R(2) data R'(1) by (simp add: dropna_def)
  then have "length (frame_rows pd) \<le> length rest"
    using length_dropna_le [of "map2 add_rsi rest R'"] R'(2) by simp
  then show ?thesis using data by simp
qed

text \<open>
  C9, as the code has it: after the fetch, columns are only added (the oscillator column
  by \<^verbatim>\<open>load_price_data\<close>, the column \<^verbatim>\<open>Date\<close> by \<^verbatim>\<open>plot_price\<close>) and no value of a fetched
  column changes in a row that is kept; but \<^verbatim>\<open>load_price_data\<close> removes rows in place. The
  rows of the loaded frame are fetched rows in their order, fewer than were fetched when
  any were, and \<^verbatim>\<open>plot_price\<close> keeps every row and adds the index as \<^verbatim>\<open>Date\<close>.
\<close>

theorem rows_after_fetch:
  assumes "load_price_data data p = Inr pd" "plot_price cfg pd = Inr (fig, df)"
  shows "subseq (map price_row.truncate (frame_rows pd)) data \<and>
         (data \<noteq> [] \<longrightarrow> length (frame_rows pd) < length data) \<and>
         map rsi_row.truncate (dated_rows df) = frame_rows pd \<and>
         map Date (dated_rows df) = map idx (frame_rows pd) \<and>
         dated_rsi_label df = rsi_label pd"
proof -
  obtain R where R: "rsi (map Adj_Close data) p = Inr R"
      "frame_rows pd = dropna (map2 add_rsi data R)"
    using load_price_data_rows [OF assms(1)] by blast
  have p: "1 \<le> p" using R(1) by (auto simp: rsi_def rsi_ema_up_def ewm_mean_def split: if_splits)
  have len: "length R = length data"
    using load_price_data_ok [OF p, of data] R(1) by auto
  have a: "subseq (map price_row.truncate (frame_rows pd)) data"
    using subseq_dropna [OF len] R(2) by simp
  have b: "data \<noteq> [] \<longrightarrow> length (frame_rows pd) < length data"
    using load_drops_first [OF assms(1)] by simp
  have c: "dated_rows df = map add_date (frame_rows pd)" "dated_rsi_label df = rsi_label pd"
    using plot_price_parts(4,5) [OF assms(2)] by simp_all
  have d: "map rsi_row.truncate (dated_rows df) = frame_rows pd"
    using c(1) by (simp add: comp_def)
  have e: "map Date (dated_rows df) = map idx (frame_rows pd)"
    using c(1) by (simp add: comp_def)
  show ?thesis using a b c(2) d e by simp
qed

theorem rows_after_fetch_witness:
  "load_price_data small_data 14 = Inr small_frame \<and>
   map rsi_row.truncate (dated_rows (snd (projr (plot_price default_config small_frame)))) =
     frame_rows small_frame \<and>
   length (frame_rows small_frame) < length small_data"
proof -
  have l: "load_price_data small_data 14 = Inr small_frame"
    by (simp add: load_price_data_def small_data_def small_frame_def flat_row_def rsi_eval
          dropna_def has_na_def rsi_label_14 add_rsi_def price_row.defs rsi_row.defs)
  obtain fig df where p: "plot_price default_config small_frame = Inr (fig, df)"
    using plot_price_ok [of default_config small_frame]
    by (auto simp: default_config_def small_frame_def rsi_label_14)
  show ?thesis
    using rows_after_fetch [OF l p] l p by (simp add: small_data_def)
qed

text \<open>
  The claim of C9 as it was written fails on every download that has a row: of the three
  fetched rows with the prices 5, 5 and 6 only the last one is left in the frame after
  \<^verbatim>\<open>load_price_data\<close>.
\<close>

theorem rows_removed_counterexample:
  "length small_data = 3 \<and>
   map price_row.truncate (frame_rows (projr (load_price_data small_data 14))) =
     [flat_row 2 6]"
  by (simp add: load_price_data_def small_data_def flat_row_def rsi_eval
        dropna_def has_na_def add_rsi_def price_row.defs rsi_row.defs price_row.truncate_def)

lemma load_small: "load_price_data small_data 14 = Inr small_frame"
  by (simp add: load_price_data_def small_data_def small_frame_def flat_row_def rsi_eval
        dropna_def has_na_def rsi_label_14 add_rsi_def price_row.defs rsi_row.defs)

text \<open>
  C6: for every configuration (a window of the oscillator of at least 1, no negative
  window of a moving average) and every download, loading and plotting end without an
  error; the figure has the price panel, the oscillator panel exactly when the oscillator
  is switched on and the volume panel exactly when the volume is switched on, each panel
  below the one before; with both switched off the figure has exactly one panel.
\<close>

theorem panels_by_flags:
  assumes "1 \<le> rsi_periods cfg"
      and "sma_1 cfg \<longrightarrow> 0 \<le> sma_1_periods cfg" and "sma_2 cfg \<longrightarrow> 0 \<le> sma_2_periods cfg"
  shows "\<exists>pd fig df. load_price_data data (rsi_periods cfg) = Inr pd \<and>
           plot_price cfg pd = Inr (fig, df) \<and>
           (ax2 fig \<noteq> None) = rsi_1 cfg \<and> (ax3 fig \<noteq> None) = volume cfg \<and>
           length (panels fig) =
             1 + (if rsi_1 cfg then 1 else 0) + (if volume cfg then 1 else 0) \<and>
           stacked (panels fig)"
proof -
  obtain pd where pd: "load_price_data data (rsi_periods cfg) = Inr pd"
      "rsi_label pd = rsi_column_label (rsi_periods cfg)"
    using load_price_data_ok [OF assms(1), of data] by auto
  obtain fig df where f: "plot_price cfg pd = Inr (fig, df)"
    using plot_price_ok [OF assms(2,3), of pd] pd(2) by auto
  have r1: "subplot_rows (ax1 fig) = (1, 7)"
    using price_panel_rows [OF plot_price_parts(1) [OF f]] by simp
  note r2 = ax2_rows [OF f]
  note r3 = ax3_rows [OF f]
  have "(ax2 fig \<noteq> None) = rsi_1 cfg \<and> (ax3 fig \<noteq> None) = volume cfg \<and>
        length (panels fig) =
             1 + (if rsi_1 cfg then 1 else 0) + (if volume cfg then 1 else 0) \<and>
        stacked (panels fig)"
    using r1 r2 r3
    by (cases "ax2 fig"; cases "ax3 fig")
       (auto simp: panels_def first_row_def last_row_def split: if_splits)
  then show ?thesis using pd(1) f by blast
qed

theorem panels_by_flags_witness:
  "length (panels (fst (projr (plot_price (default_config\<lparr>rsi_1 := False, volume := False\<rparr>)
                                          small_frame)))) = 1 \<and>
   length (panels (fst (projr (plot_price default_config small_frame)))) = 3"
  using panels_by_flags [of "default_config\<lparr>rsi_1 := False, volume := False\<rparr>" small_data]
        panels_by_flags [of default_config small_data] load_small
  by (auto simp: default_config_def)


subsection \<open>The oscillator on a series of finite prices\<close>

text \<open>
  The lemmas on finite prices follow the exact arithmetic of the model: they give the
  values that 64-bit floats approximate by rounding every operation.
\<close>

lemma finite_cases: "finite_val v \<Longrightarrow> v = NZero \<or> (\<exists>r. v = Fin r)"
  by (cases v) (auto simp: finite_val_def)

lemma fnn_cases: "fnn v \<Longrightarrow> v = NZero \<or> (\<exists>r\<ge>0. v = Fin r)"
  by (cases v) (auto simp: fnn_def finite_val_def)

lemma fsub_finite:
  assumes "finite_val a" "finite_val b"
  shows "finite_val (fsub a b) \<and> rv (fsub a b) = rv a - rv b"
  using finite_cases [OF assms(1)] finite_cases [OF assms(2)]
  by (auto simp: fsub_def finite_val_def split: if_splits)

lemma up_finite:
  assumes "finite_val d"
  shows "fnn (clip_lower (Fin 0) d) \<and> rv (clip_lower (Fin 0) d) = max (rv d) 0"
  using finite_cases [OF assms] by (auto simp: clip_lower_def fnn_def finite_val_def)

lemma down_finite:
  assumes "finite_val d"
  shows "fnn (fmul (Fin (- 1)) (clip_upper (Fin 0) d)) \<and>
         rv (fmul (Fin (- 1)) (clip_upper (Fin 0) d)) = max (- rv d) 0"
  using finite_cases [OF assms]
  by (auto simp: clip_upper_def fmul_def zero_s_def fnn_def finite_val_def)

lemma fmul_fnn:
  assumes "0 \<le> k" "fnn w"
  shows "fnn (fmul (Fin k) w) \<and> rv (fmul (Fin k) w) = k * rv w"
  using fnn_cases [OF assms(2)] assms(1)
  by (auto simp: fmul_def zero_s_def fnn_def finite_val_def)

lemma fadd_fnn:
  assumes "fnn a" "fnn b"
  shows "fnn (fadd a b) \<and> rv (fadd a b) = rv a + rv b"
  using fnn_cases [OF assms(1)] fnn_cases [OF assms(2)]
  by (auto simp: fnn_def finite_val_def)

lemma fdiv_fnn:
  assumes "0 < k" "fnn a"
  shows "fnn (fdiv a (Fin k)) \<and> rv (fdiv a (Fin k)) = rv a / k"
  using fnn_cases [OF assms(2)] assms(1)
  by (auto simp: fdiv_def zero_s_def fnn_def finite_val_def)

lemma feq_fnn: "fnn a \<Longrightarrow> fnn b \<Longrightarrow> feq a b = (rv a = rv b)"
  by (drule fnn_cases, drule fnn_cases) (auto simp: feq_def)

lemma ewm_step_fnn:
  assumes "0 < a" "a \<le> 1" "fnn w" "fnn c"
  shows "snd (ewm_step a w 1 c) = 1 \<and> fnn (fst (ewm_step a w 1 c)) \<and>
         rv (fst (ewm_step a w 1 c)) = (1 - a) * rv w + a * rv c"
proof -
  have nw: "\<not> is_nan w" "\<not> is_nan c" using assms(3,4) by (auto simp: fnn_def finite_val_def)
  show ?thesis
  proof (cases "feq w c")
    case True
    then have "rv w = rv c" using feq_fnn [OF assms(3,4)] by simp
    then have "(1 - a) * rv w + a * rv c = rv w" by (simp add: algebra_simps)
    then show ?thesis using True nw assms(3) by (simp add: ewm_step_def Let_def)
  next
    case False
    have k: "0 \<le> 1 - a" using assms(2) by simp
    note m1 = fmul_fnn [OF k assms(3)]
    have a0: "0 \<le> a" using assms(1) by simp
    note m2 = fmul_fnn [OF a0 assms(4)]
    note s = fadd_fnn [OF conjunct1 [OF m1] conjunct1 [OF m2]]
    have one: "(0::real) < 1" by simp
    note d = fdiv_fnn [OF one conjunct1 [OF s]]
    show ?thesis using False nw d s m1 m2 by (simp add: ewm_step_def Let_def)
  qed
qed

lemma ewm_loop_nth:
  assumes "0 < a" "a \<le> 1"
  shows "fnn w \<Longrightarrow> \<forall>x\<in>set xs. fnn x \<Longrightarrow> k < length xs \<Longrightarrow>
         fnn (ewm_loop a w 1 n xs ! k) \<and>
         rv (ewm_loop a w 1 n xs ! k) =
           (1 - a) * (if k = 0 then rv w else rv (ewm_loop a w 1 n xs ! (k - 1))) + a * rv (xs ! k)"
proof (induction xs arbitrary: w n k)
  case Nil
  then show ?case by simp
next
  case (Cons c xs)
  have c: "fnn c" using Cons.prems(2) by simp
  then have nc: "\<not> is_nan c" by (simp add: fnn_def finite_val_def)
  note st = ewm_step_fnn [OF assms Cons.prems(1) c]
  obtain w' where w': "ewm_step a w 1 c = (w', 1)"
    using st by (cases "ewm_step a w 1 c") auto
  have fw': "fnn w'" "rv w' = (1 - a) * rv w + a * rv c" using st w' by auto
  have unf: "ewm_loop a w 1 n (c # xs) = w' # ewm_loop a w' 1 (Suc n) xs"
    using w' nc by (simp add: Let_def)
  show ?case
  proof (cases k)
    case 0
    then show ?thesis using unf fw' by simp
  next
    case (Suc j)
    then have j: "j < length xs" using Cons.prems(3) by simp
    have xs: "\<forall>x\<in>set xs. fnn x" using Cons.prems(2) by simp
    from Cons.IH [OF fw'(1) xs j, of "Suc n"] show ?thesis
      using unf Suc by (cases j) auto
  qed
qed


lemma ewm_loop_seed:
  assumes "\<not> is_nan c"
  shows "ewm_loop a NaN 1 0 (c # rest) = c # ewm_loop a c 1 1 rest"
  using assms by (simp add: ewm_step_def Let_def)

lemma ewm_seeded_rec:
  assumes a: "0 < a" "a \<le> 1" and ys: "\<forall>x\<in>set ys. fnn x"
  shows "k < length ys \<Longrightarrow>
         fnn (ewm_loop a NaN 1 0 ys ! k) \<and>
         rv (ewm_loop a NaN 1 0 ys ! k) =
           (if k = 0 then rv (ys ! 0)
            else (1 - a) * rv (ewm_loop a NaN 1 0 ys ! (k - 1)) + a * rv (ys ! k))"
proof (cases ys)
  case Nil
  assume "k < length ys"
  then show ?thesis using Nil by simp
next
  case (Cons c rest)
  assume k: "k < length ys"
  have c: "fnn c" and rest: "\<forall>x\<in>set rest. fnn x" using ys Cons by simp_all
  have nc: "\<not> is_nan c" using c by (simp add: fnn_def finite_val_def)
  note unf = ewm_loop_seed [OF nc, of a rest]
  show ?thesis
  proof (cases k)
    case 0
    then show ?thesis using unf Cons c by simp
  next
    case (Suc j)
    then have j: "j < length rest" using k Cons by simp
    from ewm_loop_nth [OF a c rest j, of 1] show ?thesis
      using unf Cons Suc by (cases j) auto
  qed
qed

lemma ewma_cong:
  "(\<And>j. 1 \<le> j \<Longrightarrow> j \<le> t \<Longrightarrow> x j = y j) \<Longrightarrow> ewma a x t = ewma a y t"
  by (induction a x t rule: ewma.induct) auto

lemma ewm_seeded_ewma:
  assumes a: "0 < a" "a \<le> 1" and ys: "\<forall>x\<in>set ys. fnn x"
  shows "k < length ys \<Longrightarrow>
         fnn (ewm_loop a NaN 1 0 ys ! k) \<and>
         rv (ewm_loop a NaN 1 0 ys ! k) = ewma a (\<lambda>j. rv (ys ! (j - 1))) (Suc k)"
proof (induction k)
  case 0
  then show ?case using ewm_seeded_rec [OF a ys, of 0] by simp
next
  case (Suc k)
  then have k: "k < length ys" by simp
  from ewm_seeded_rec [OF a ys Suc.prems] Suc.IH [OF k] show ?case by simp
qed

lemma prep_values_fnn: "\<forall>x\<in>set ys. fnn x \<Longrightarrow> prep_values ys = ys"
  by (induction ys) (auto simp: fnn_def finite_val_def)

lemma ewm_mean_seeded:
  assumes "0 \<le> com" and ys: "\<forall>x\<in>set ys. fnn x"
  shows "\<exists>U. ewm_mean com (NaN # ys) = Inr (NaN # U) \<and> length U = length ys \<and>
           (\<forall>k<length ys. fnn (U ! k) \<and>
              rv (U ! k) = ewma (1 / (1 + real_of_int com)) (\<lambda>j. rv (ys ! (j - 1))) (Suc k))"
proof -
  let ?a = "1 / (1 + real_of_int com)"
  have a: "0 < ?a" "?a \<le> 1" using assms(1) by auto
  have "ewm_mean com (NaN # ys) = Inr (NaN # ewm_loop ?a NaN 1 0 ys)"
    using assms(1) prep_values_fnn [OF ys] by (simp add: ewm_mean_def Let_def)
  then show ?thesis using ewm_seeded_ewma [OF a ys] by auto
qed

lemma diff_from_nth:
  "k < length xs \<Longrightarrow> diff_from p xs ! k = fsub (xs ! k) (if k = 0 then p else xs ! (k - 1))"
proof (induction xs arbitrary: p k)
  case Nil
  then show ?case by simp
next
  case (Cons x xs)
  show ?case
  proof (cases k)
    case 0
    then show ?thesis by simp
  next
    case (Suc j)
    then have "j < length xs" using Cons.prems by simp
    from Cons.IH [OF this, of x] show ?thesis using Suc by (cases j) auto
  qed
qed

lemma diff_from_finite:
  assumes "finite_val x" "\<forall>v\<in>set xs. finite_val v" "k < length xs"
  shows "finite_val (diff_from x xs ! k) \<and>
         rv (diff_from x xs ! k) = rv ((x # xs) ! Suc k) - rv ((x # xs) ! k)"
proof -
  have f: "finite_val (xs ! k)" using assms(2,3) by simp
  have g: "finite_val (if k = 0 then x else xs ! (k - 1))" using assms by simp
  show ?thesis
    using fsub_finite [OF f g] diff_from_nth [OF assms(3), of x]
    by (cases k) auto
qed

lemma rsi_up_finite:
  assumes "finite_val x" "\<forall>v\<in>set xs. finite_val v"
  shows "\<exists>ups. rsi_up (x # xs) = NaN # ups \<and> length ups = length xs \<and>
           (\<forall>k<length xs. fnn (ups ! k) \<and> rv (ups ! k) = gain (x # xs) (Suc k))"
proof -
  let ?ups = "map (clip_lower (Fin 0)) (diff_from x xs)"
  have "rsi_up (x # xs) = NaN # ?ups"
    by (simp add: rsi_up_def rsi_delta_def clip_lower_def)
  moreover have "fnn (?ups ! k) \<and> rv (?ups ! k) = gain (x # xs) (Suc k)" if "k < length xs" for k
    using diff_from_finite [OF assms that] up_finite [of "diff_from x xs ! k"] that
    by (simp add: gain_def)
  ultimately show ?thesis by simp
qed

lemma rsi_down_finite:
  assumes "finite_val x" "\<forall>v\<in>set xs. finite_val v"
  shows "\<exists>downs. rsi_down (x # xs) = NaN # downs \<and> length downs = length xs \<and>
           (\<forall>k<length xs. fnn (downs ! k) \<and> rv (downs ! k) = loss (x # xs) (Suc k))"
proof -
  let ?f = "\<lambda>v. fmul (Fin (- 1)) (clip_upper (Fin 0) v)"
  let ?downs = "map ?f (diff_from x xs)"
  have "rsi_down (x # xs) = NaN # ?downs"
    by (simp add: rsi_down_def rsi_delta_def clip_upper_def fmul_def)
  moreover have "fnn (?downs ! k) \<and> rv (?downs ! k) = loss (x # xs) (Suc k)"
    if "k < length xs" for k
    using diff_from_finite [OF assms that] down_finite [of "diff_from x xs ! k"] that
    by (simp add: loss_def)
  ultimately show ?thesis by simp
qed

lemma fdiv_zero_pos:
  assumes "is_zero u" "0 < s"
  shows "fdiv u (Fin s) = NZero \<or> fdiv u (Fin s) = Fin 0"
proof -
  have s: "s \<noteq> 0" "\<not> s < 0" using assms(2) by simp_all
  have "u = NZero \<or> u = Fin 0" using assms(1) by (cases u) auto
  then show ?thesis
  proof
    assume "u = NZero"
    then show ?thesis using s by (simp add: fdiv_def zero_s_def)
  next
    assume "u = Fin 0"
    then show ?thesis using s by (simp add: fdiv_def zero_s_def)
  qed
qed

lemma rsi_tail: "rs = NZero \<or> rs = Fin 0 \<Longrightarrow> fsub (Fin 100) (fdiv (Fin 100) (fadd (Fin 1) rs)) = Fin 0"
  by (auto simp: fdiv_def fsub_def)

lemma rsi_value_no_gain:
  assumes "is_zero u" "0 < s"
  shows "rsi_value u (Fin s) = Fin 0"
  using rsi_tail [OF fdiv_zero_pos [OF assms]] by (simp add: rsi_value_def Let_def)

lemma fnn_pos: "fnn v \<Longrightarrow> \<not> is_zero v \<Longrightarrow> \<exists>r>0. v = Fin r"
  by (drule fnn_cases) auto

lemma fnn_rv_zero: "fnn v \<Longrightarrow> (rv v = 0) = is_zero v"
  by (drule fnn_cases) auto

lemma rsi_value_fnn:
  assumes "fnn u" "fnn d"
  shows "rsi_value u d =
           (if rv d = 0 then (if rv u = 0 then NaN else Fin 100)
            else Fin (100 - 100 / (1 + rv u / rv d)))"
proof (cases "is_zero d")
  case True
  note dz = True
  have d0: "rv d = 0" using fnn_rv_zero [OF assms(2)] dz by simp
  show ?thesis
  proof (cases "is_zero u")
    case True
    have "rv u = 0" using fnn_rv_zero [OF assms(1)] True by simp
    then show ?thesis using rsi_value_zero_zero [OF dz True] d0 by simp
  next
    case False
    have u0: "rv u \<noteq> 0" using fnn_rv_zero [OF assms(1)] False by simp
    have "nn u" "\<not> is_nan u" using assms(1) by (simp_all add: fnn_def finite_val_def)
    from rsi_value_saturates [OF this(1) dz False this(2)] show ?thesis
      using u0 d0 by simp
  qed
next
  case False
  then obtain s where s: "d = Fin s" "0 < s" using fnn_pos [OF assms(2)] by blast
  have s0: "s \<noteq> 0" using s(2) by simp
  show ?thesis
  proof (cases "is_zero u")
    case True
    have "rv u = 0" using fnn_rv_zero [OF assms(1)] True by simp
    then show ?thesis
      using rsi_value_no_gain [OF True s(2)] s(1) s0 by simp
  next
    case False
    then obtain r where r: "u = Fin r" "0 < r" using fnn_pos [OF assms(1)] by blast
    show ?thesis using rsi_value_fin [OF r(2) s(2)] r(1) s(1) s0 by simp
  qed
qed

lemma rsi_value_NaN [simp]: "rsi_value NaN d = NaN"
  by (simp add: rsi_value_def fdiv_def fsub_def)

lemma alpha_periods: "1 \<le> p \<Longrightarrow> 1 / (1 + real_of_int (p - 1)) = 1 / real_of_int p"
  by simp

lemma rsi_finite:
  assumes p: "1 \<le> p" and fin: "\<forall>v\<in>set S. finite_val v"
  shows "\<exists>R. rsi S p = Inr R \<and> length R = length S \<and>
           (\<forall>t<length S. R ! t = oscillator (1 / real_of_int p) S t)"
proof (cases S)
  case Nil
  then show ?thesis using p
    by (simp add: rsi_def rsi_ema_up_def rsi_ema_down_def rsi_up_def rsi_down_def
          rsi_delta_def ewm_mean_def)
next
  case (Cons x xs)
  let ?a = "1 / real_of_int p"
  have fx: "finite_val x" and fxs: "\<forall>v\<in>set xs. finite_val v" using fin Cons by simp_all
  have com: "0 \<le> p - 1" using p by simp
  obtain ups where ups: "rsi_up (x # xs) = NaN # ups" "length ups = length xs"
      "\<forall>k<length xs. fnn (ups ! k) \<and> rv (ups ! k) = gain (x # xs) (Suc k)"
    using rsi_up_finite [OF fx fxs] by blast
  obtain downs where downs: "rsi_down (x # xs) = NaN # downs" "length downs = length xs"
      "\<forall>k<length xs. fnn (downs ! k) \<and> rv (downs ! k) = loss (x # xs) (Suc k)"
    using rsi_down_finite [OF fx fxs] by blast
  have ups_fnn: "\<forall>v\<in>set ups. fnn v" using ups(2,3) by (auto simp: in_set_conv_nth)
  have downs_fnn: "\<forall>v\<in>set downs. fnn v" using downs(2,3) by (auto simp: in_set_conv_nth)
  obtain U where U: "ewm_mean (p - 1) (NaN # ups) = Inr (NaN # U)" "length U = length ups"
      "\<forall>k<length ups. fnn (U ! k) \<and>
         rv (U ! k) = ewma (1 / (1 + real_of_int (p - 1))) (\<lambda>j. rv (ups ! (j - 1))) (Suc k)"
    using ewm_mean_seeded [OF com ups_fnn] by blast
  obtain D where D: "ewm_mean (p - 1) (NaN # downs) = Inr (NaN # D)" "length D = length downs"
      "\<forall>k<length downs. fnn (D ! k) \<and>
         rv (D ! k) = ewma (1 / (1 + real_of_int (p - 1))) (\<lambda>j. rv (downs ! (j - 1))) (Suc k)"
    using ewm_mean_seeded [OF com downs_fnn] by blast
  let ?R = "NaN # map2 rsi_value U D"
  have R: "rsi S p = Inr ?R"
    using U(1) D(1) ups(1) downs(1) Cons
    by (simp add: rsi_def rsi_ema_up_def rsi_ema_down_def)
  have len: "length ?R = length S" using U(2) D(2) ups(2) downs(2) Cons by simp
  have "?R ! t = oscillator ?a S t" if t: "t < length S" for t
  proof (cases t)
    case 0
    then show ?thesis by (simp add: oscillator_def)
  next
    case (Suc k)
    then have k: "k < length xs" using t Cons by simp
    have Uk: "fnn (U ! k)" "rv (U ! k) = ewma ?a (\<lambda>j. rv (ups ! (j - 1))) (Suc k)"
      using U(3) k ups(2) alpha_periods [OF p] by simp_all
    have Dk: "fnn (D ! k)" "rv (D ! k) = ewma ?a (\<lambda>j. rv (downs ! (j - 1))) (Suc k)"
      using D(3) k downs(2) alpha_periods [OF p] by simp_all
    have g: "ewma ?a (\<lambda>j. rv (ups ! (j - 1))) (Suc k) = ewma ?a (gain S) (Suc k)"
    proof (rule ewma_cong)
      fix j :: nat assume j: "1 \<le> j" "j \<le> Suc k"
      then have "j - 1 < length xs" using k by simp
      then have "rv (ups ! (j - 1)) = gain (x # xs) (Suc (j - 1))" using ups(3) by simp
      then show "rv (ups ! (j - 1)) = gain S j" using j Cons by simp
    qed
    have l: "ewma ?a (\<lambda>j. rv (downs ! (j - 1))) (Suc k) = ewma ?a (loss S) (Suc k)"
    proof (rule ewma_cong)
      fix j :: nat assume j: "1 \<le> j" "j \<le> Suc k"
      then have "j - 1 < length xs" using k by simp
      then have "rv (downs ! (j - 1)) = loss (x # xs) (Suc (j - 1))" using downs(3) by simp
      then show "rv (downs ! (j - 1)) = loss S j" using j Cons by simp
    qed
    have "?R ! t = rsi_value (U ! k) (D ! k)"
      using Suc k U(2) D(2) ups(2) downs(2) by simp
    also have "\<dots> = oscillator ?a S t"
      using rsi_value_fnn [OF Uk(1) Dk(1)] Uk(2) Dk(2) g l Suc
      by (simp add: oscillator_def Let_def)
    finally show ?thesis .
  qed
  then show ?thesis using R len by blast
qed

lemma ewma_nonneg:
  assumes "0 \<le> a" "a \<le> 1" "\<And>j. 0 \<le> x j"
  shows "0 \<le> ewma a x (Suc t)"
proof (induction t)
  case 0
  show ?case using assms(3) [of 1] by simp
next
  case (Suc t)
  have "0 \<le> (1 - a) * ewma a x (Suc t)" using assms(2) Suc by simp
  moreover have "0 \<le> a * x (Suc (Suc t))" using assms(1) assms(3) [of "Suc (Suc t)"] by simp
  ultimately show ?case by simp
qed

lemma ewma_zero_iff:
  assumes a: "0 < a" "a < 1" and x: "\<And>j. 0 \<le> x j"
  shows "ewma a x (Suc t) = 0 \<longleftrightarrow> (\<forall>j. 1 \<le> j \<and> j \<le> Suc t \<longrightarrow> x j = 0)"
proof (induction t)
  case 0
  have "(\<forall>j. 1 \<le> j \<and> j \<le> Suc 0 \<longrightarrow> x j = 0) = (x 1 = 0)"
    by (metis One_nat_def le_antisym order_refl)
  then show ?case by simp
next
  case (Suc t)
  have e: "0 \<le> ewma a x (Suc t)" using ewma_nonneg [of a x t] a x by simp
  have p1: "0 \<le> (1 - a) * ewma a x (Suc t)" using a e by simp
  have p2: "0 \<le> a * x (Suc (Suc t))" using a x by simp
  have "ewma a x (Suc (Suc t)) = 0 \<longleftrightarrow>
        (1 - a) * ewma a x (Suc t) = 0 \<and> a * x (Suc (Suc t)) = 0"
    using p1 p2 by (simp add: add_nonneg_eq_0_iff)
  also have "\<dots> \<longleftrightarrow> ewma a x (Suc t) = 0 \<and> x (Suc (Suc t)) = 0"
    using a by simp
  also have "\<dots> \<longleftrightarrow> (\<forall>j. 1 \<le> j \<and> j \<le> Suc t \<longrightarrow> x j = 0) \<and> x (Suc (Suc t)) = 0"
    using Suc by simp
  also have "\<dots> \<longleftrightarrow> (\<forall>j. 1 \<le> j \<and> j \<le> Suc (Suc t) \<longrightarrow> x j = 0)"
    by (metis le_SucE le_SucI le_refl not_less_eq_eq One_nat_def le_add1 plus_1_eq_Suc)
  finally show ?case .
qed

lemma gain_nonneg: "0 \<le> gain S j"
  by (simp add: gain_def)

lemma loss_nonneg: "0 \<le> loss S j"
  by (simp add: loss_def)

lemma no_change: "(gain S j = 0 \<and> loss S j = 0) = (rv (S ! j) = rv (S ! (j - 1)))"
  by (auto simp: gain_def loss_def max_def)

lemma both_zero_iff:
  "(\<forall>j. 1 \<le> j \<and> j \<le> n \<longrightarrow> gain S j = 0) \<and> (\<forall>j. 1 \<le> j \<and> j \<le> n \<longrightarrow> loss S j = 0) \<longleftrightarrow>
   (\<forall>j. 1 \<le> j \<and> j \<le> n \<longrightarrow> rv (S ! j) = rv (S ! (j - 1)))"
proof
  assume h: "(\<forall>j. 1 \<le> j \<and> j \<le> n \<longrightarrow> gain S j = 0) \<and> (\<forall>j. 1 \<le> j \<and> j \<le> n \<longrightarrow> loss S j = 0)"
  show "\<forall>j. 1 \<le> j \<and> j \<le> n \<longrightarrow> rv (S ! j) = rv (S ! (j - 1))"
  proof (intro allI impI)
    fix j assume j: "1 \<le> j \<and> j \<le> n"
    then have "gain S j = 0 \<and> loss S j = 0" using h by simp
    then show "rv (S ! j) = rv (S ! (j - 1))" by (simp only: no_change)
  qed
next
  assume h: "\<forall>j. 1 \<le> j \<and> j \<le> n \<longrightarrow> rv (S ! j) = rv (S ! (j - 1))"
  have "gain S j = 0 \<and> loss S j = 0" if "1 \<le> j \<and> j \<le> n" for j
    using h that by (simp only: no_change)
  then show "(\<forall>j. 1 \<le> j \<and> j \<le> n \<longrightarrow> gain S j = 0) \<and> (\<forall>j. 1 \<le> j \<and> j \<le> n \<longrightarrow> loss S j = 0)"
    by simp
qed

lemma oscillator_Suc_nan:
  "is_nan (oscillator a S (Suc k)) \<longleftrightarrow>
   ewma a (gain S) (Suc k) = 0 \<and> ewma a (loss S) (Suc k) = 0"
  unfolding oscillator_def Let_def by simp

lemma oscillator_nan_iff:
  assumes a: "0 < a" "a < 1"
  shows "is_nan (oscillator a S t) \<longleftrightarrow>
         (\<forall>j. 1 \<le> j \<and> j \<le> t \<longrightarrow> rv (S ! j) = rv (S ! (j - 1)))"
proof (cases t)
  case 0
  then show ?thesis by (simp add: oscillator_def)
next
  case (Suc k)
  have g: "ewma a (gain S) (Suc k) = 0 \<longleftrightarrow> (\<forall>j. 1 \<le> j \<and> j \<le> Suc k \<longrightarrow> gain S j = 0)"
    by (rule ewma_zero_iff [OF a gain_nonneg])
  have l: "ewma a (loss S) (Suc k) = 0 \<longleftrightarrow> (\<forall>j. 1 \<le> j \<and> j \<le> Suc k \<longrightarrow> loss S j = 0)"
    by (rule ewma_zero_iff [OF a loss_nonneg])
  show ?thesis
    unfolding Suc oscillator_Suc_nan g l by (rule both_zero_iff)
qed

lemma chain_first:
  "(\<forall>j. 1 \<le> j \<and> j \<le> t \<longrightarrow> rv (S ! j) = rv (S ! (j - 1))) \<longleftrightarrow>
   (\<forall>j\<le>t. rv (S ! j) = rv (S ! 0))"
proof
  assume h: "\<forall>j. 1 \<le> j \<and> j \<le> t \<longrightarrow> rv (S ! j) = rv (S ! (j - 1))"
  have "j \<le> t \<Longrightarrow> rv (S ! j) = rv (S ! 0)" for j
  proof (induction j)
    case 0
    show ?case by (rule refl)
  next
    case (Suc j)
    have "rv (S ! Suc j) = rv (S ! (Suc j - 1))"
      using h [rule_format, of "Suc j"] Suc.prems by simp
    then have "rv (S ! Suc j) = rv (S ! j)" by simp
    moreover have "rv (S ! j) = rv (S ! 0)" using Suc.IH Suc.prems by simp
    ultimately show ?case by (rule trans)
  qed
  then show "\<forall>j\<le>t. rv (S ! j) = rv (S ! 0)" by blast
next
  assume h: "\<forall>j\<le>t. rv (S ! j) = rv (S ! 0)"
  show "\<forall>j. 1 \<le> j \<and> j \<le> t \<longrightarrow> rv (S ! j) = rv (S ! (j - 1))"
  proof (intro allI impI)
    fix j assume j: "1 \<le> j \<and> j \<le> t"
    have 1: "rv (S ! j) = rv (S ! 0)" using h [rule_format, of j] j by blast
    have "j - 1 \<le> t" using j by linarith
    then have 2: "rv (S ! (j - 1)) = rv (S ! 0)" using h [rule_format, of "j - 1"] by blast
    show "rv (S ! j) = rv (S ! (j - 1))" using 1 2 by (rule trans [OF _ sym])
  qed
qed

lemma takeWhile_prefix:
  assumes "t \<le> length ys"
  shows "t \<le> length (takeWhile P ys) \<longleftrightarrow> (\<forall>i<t. P (ys ! i))"
proof
  assume le: "t \<le> length (takeWhile P ys)"
  show "\<forall>i<t. P (ys ! i)"
  proof (intro allI impI)
    fix i assume "i < t"
    then have i: "i < length (takeWhile P ys)" using le by simp
    then have "takeWhile P ys ! i \<in> set (takeWhile P ys)" by simp
    then have "P (takeWhile P ys ! i)" using set_takeWhileD by metis
    then show "P (ys ! i)" using takeWhile_nth [OF i] by simp
  qed
next
  assume h: "\<forall>i<t. P (ys ! i)"
  show "t \<le> length (takeWhile P ys)"
  proof (rule ccontr)
    assume "\<not> t \<le> length (takeWhile P ys)"
    then have lt: "length (takeWhile P ys) < t" by simp
    then have "length (takeWhile P ys) < length ys" using assms by simp
    then have "\<not> P (ys ! length (takeWhile P ys))" by (rule nth_length_takeWhile)
    then show False using h lt by simp
  qed
qed

lemma unchanged_iff:
  assumes "t < length S"
  shows "(\<forall>j\<le>t. rv (S ! j) = rv (S ! 0)) \<longleftrightarrow> t \<le> unchanged_rows S"
proof (cases S)
  case Nil
  then show ?thesis using assms by simp
next
  case (Cons x xs)
  have t: "t \<le> length xs" using assms Cons by simp
  have "(\<forall>j\<le>t. rv (S ! j) = rv (S ! 0)) \<longleftrightarrow> (\<forall>i<t. rv (xs ! i) = rv x)"
  proof
    assume h: "\<forall>j\<le>t. rv (S ! j) = rv (S ! 0)"
    show "\<forall>i<t. rv (xs ! i) = rv x"
    proof (intro allI impI)
      fix i assume "i < t"
      then have "Suc i \<le> t" by simp
      then have "rv (S ! Suc i) = rv (S ! 0)" using h [rule_format, of "Suc i"] by blast
      then show "rv (xs ! i) = rv x" unfolding Cons by simp
    qed
  next
    assume h: "\<forall>i<t. rv (xs ! i) = rv x"
    show "\<forall>j\<le>t. rv (S ! j) = rv (S ! 0)"
    proof (intro allI impI)
      fix j assume j: "j \<le> t"
      show "rv (S ! j) = rv (S ! 0)"
      proof (cases j)
        case 0
        then show ?thesis by simp
      next
        case (Suc i)
        then have "i < t" using j by simp
        then have "rv (xs ! i) = rv x" using h [rule_format, of i] by blast
        then show ?thesis unfolding Cons Suc by simp
      qed
    qed
  qed
  also have "\<dots> \<longleftrightarrow> t \<le> length (takeWhile (\<lambda>v. rv v = rv x) xs)"
    using takeWhile_prefix [OF t, of "\<lambda>v. rv v = rv x"] by simp
  finally show ?thesis unfolding Cons by (simp add: unchanged_rows_def)
qed

lemma filter_prefix:
  assumes "\<forall>t<length zs. P (zs ! t) \<longleftrightarrow> t < n"
  shows "filter (\<lambda>z. \<not> P z) zs = drop n zs"
proof -
  have a: "filter (\<lambda>z. \<not> P z) (take n zs) = []"
    using assms by (auto simp: filter_empty_conv in_set_conv_nth)
  have "\<forall>z\<in>set (drop n zs). \<not> P z"
  proof
    fix z assume "z \<in> set (drop n zs)"
    then obtain i where i: "i < length (drop n zs)" "z = drop n zs ! i"
      by (auto simp: in_set_conv_nth)
    then have "z = zs ! (n + i)" "n + i < length zs" by auto
    then show "\<not> P z" using assms by auto
  qed
  then have b: "filter (\<lambda>z. \<not> P z) (drop n zs) = drop n zs"
    by (simp add: filter_id_conv)
  have "filter (\<lambda>z. \<not> P z) zs = filter (\<lambda>z. \<not> P z) (take n zs @ drop n zs)" by simp
  also have "\<dots> = drop n zs" using a b by (simp only: filter_append) simp
  finally show ?thesis .
qed

lemma has_na_complete: "complete_row r \<Longrightarrow> has_na (add_rsi r v) = is_nan v"
  by (simp add: has_na_def complete_row_def finite_val_def)

lemma nth_map2_add_rsi:
  "length R = length data \<Longrightarrow> t < length data \<Longrightarrow>
   map2 add_rsi data R ! t = add_rsi (data ! t) (R ! t)"
  by simp

lemma dropna_complete:
  assumes "\<forall>r\<in>set data. complete_row r"
  shows "dropna (map2 add_rsi data R) = filter (\<lambda>r. \<not> is_nan (RSI r)) (map2 add_rsi data R)"
  unfolding dropna_def
proof (rule filter_cong [OF refl])
  fix z assume "z \<in> set (map2 add_rsi data R)"
  then obtain r v where z: "z = add_rsi r v" "r \<in> set data"
    by (auto dest: set_zip_leftD)
  then show "(\<not> has_na z) = (\<not> is_nan (RSI z))"
    using has_na_complete [of r v] assms by simp
qed

lemma load_finite:
  assumes p: "1 \<le> periods" and c: "\<forall>r\<in>set data. complete_row r"
  shows "\<exists>R. rsi (map Adj_Close data) periods = Inr R \<and> length R = length data \<and>
           (\<forall>t<length data. R ! t = oscillator (1 / real_of_int periods) (map Adj_Close data) t) \<and>
           load_price_data data periods =
             Inr \<lparr>rsi_label = rsi_column_label periods,
                  frame_rows = filter (\<lambda>r. \<not> is_nan (RSI r)) (map2 add_rsi data R)\<rparr> \<and>
           (2 \<le> periods \<longrightarrow>
              filter (\<lambda>r. \<not> is_nan (RSI r)) (map2 add_rsi data R) =
                drop (Suc (unchanged_rows (map Adj_Close data))) (map2 add_rsi data R))"
proof -
  let ?S = "map Adj_Close data"
  let ?a = "1 / real_of_int periods"
  have fin: "\<forall>v\<in>set ?S. finite_val v" using c by (simp add: complete_row_def)
  obtain R where R: "rsi ?S periods = Inr R" "length R = length ?S"
      "\<forall>t<length ?S. R ! t = oscillator ?a ?S t"
    using rsi_finite [OF p fin] by blast
  have len: "length R = length data" using R(2) by simp
  let ?Z = "map2 add_rsi data R"
  have load: "load_price_data data periods =
             Inr \<lparr>rsi_label = rsi_column_label periods,
                  frame_rows = filter (\<lambda>r. \<not> is_nan (RSI r)) ?Z\<rparr>"
    using R(1) dropna_complete [OF c, of R] by (simp add: load_price_data_def)
  have drop: "filter (\<lambda>r. \<not> is_nan (RSI r)) ?Z = drop (Suc (unchanged_rows ?S)) ?Z"
    if p2: "2 \<le> periods"
  proof (rule filter_prefix, intro allI impI)
    fix t assume "t < length ?Z"
    then have t: "t < length data" by simp
    have a: "0 < ?a" "?a < 1" using p2 by simp_all
    have "is_nan (RSI (?Z ! t)) = is_nan (R ! t)"
      using nth_map2_add_rsi [OF len t] by simp
    also have "\<dots> = is_nan (oscillator ?a ?S t)" using R(3) t by simp
    also have "\<dots> = (\<forall>j\<le>t. rv (?S ! j) = rv (?S ! 0))"
      unfolding oscillator_nan_iff [OF a] by (rule chain_first)
    also have "\<dots> = (t \<le> unchanged_rows ?S)"
      by (rule unchanged_iff) (simp add: t)
    finally show "is_nan (RSI (?Z ! t)) = (t < Suc (unchanged_rows ?S))" by auto
  qed
  show ?thesis using R(1) len R(3) load drop by auto
qed

lemma small_complete: "\<forall>r\<in>set small_data. complete_row r"
  by (simp add: small_data_def flat_row_def complete_row_def finite_val_def)

lemma small_unchanged: "unchanged_rows (map Adj_Close small_data) = 1"
  by (simp add: small_data_def flat_row_def unchanged_rows_def)









lemma rsi_value_NaN_right [simp]: "rsi_value u NaN = NaN"
  by (cases u) (simp_all add: rsi_value_def fdiv_def fsub_def)






lemma dropna_row_defined: "dropna rs = filter row_defined rs"
  unfolding dropna_def
  by (rule filter_cong [OF refl]) (simp add: has_na_def row_defined_def)




text \<open>
  Values that the code gives and that fix the weight, the seed and the rows that are
  removed: with 2 periods the gains 2 and 4 are smoothed to 2 and 3; an infinite price
  leaves no defined value around it; a row without a volume is removed.
\<close>

lemma rsi_examples:
  "rsi_ema_up [Fin 1, Fin 3, Fin 7] 2 = Inr [NaN, Fin 2, Fin 3] \<and>
   rsi_ema_down [Fin 7, Fin 3, Fin 1] 2 = Inr [NaN, Fin 4, Fin 3] \<and>
   rsi [Fin 1, PInf, Fin 2] 14 = Inr [NaN, NaN, NaN] \<and>
   dropna [add_rsi ((flat_row 0 5)\<lparr>Volume := NaN\<rparr>) (Fin 50), add_rsi (flat_row 1 5) (Fin 50)] =
     [add_rsi (flat_row 1 5) (Fin 50)]"
  by (simp add: rsi_eval dropna_def has_na_def flat_row_def)



subsection \<open>The chart of 250 rows\<close>

lemma price_panel_labels:
  assumes "price_panel default_config df = Inr a"
  shows "map line_label (ax_lines a) = [Some ''Adj. Close'', Some ''SMA(50)'', Some ''SMA(200)'']"
  using assms
  by (auto simp: price_panel_def Let_def plot_def subplot_def sma_line_def sma_def
        rolling_mean_def default_config_def str_int_def str_nat.simps digit_char_def)

lemma n_bars_volume: "n_bars (volume_panel cfg df) = length df"
  by (simp add: n_bars_def volume_panel_def Let_def)

lemma default_render_rows:
  assumes "length data = 250" "\<forall>r\<in>set data. complete_row r"
  shows "\<exists>pd fig df a2 a3.
           load_price_data data 14 = Inr pd \<and> plot_price default_config pd = Inr (fig, df) \<and>
           ax2 fig = Some a2 \<and> ax3 fig = Some a3 \<and> length (panels fig) = 3 \<and>
           map line_label (ax_lines (ax1 fig)) =
             [Some ''Adj. Close'', Some ''SMA(50)'', Some ''SMA(200)''] \<and>
           map h_y (ax_hlines a2) = [1, 99, 15, 85, 30, 70] \<and>
           n_bars a3 = 249 - unchanged_rows (map Adj_Close data) \<and>
           length (frame_rows pd) = 249 - unchanged_rows (map Adj_Close data) \<and>
           (\<forall>l\<in>set (ax_lines (ax1 fig) @ ax_lines a2).
              length (line_y l) = 249 - unchanged_rows (map Adj_Close data))"
proof -
  let ?m = "unchanged_rows (map Adj_Close data)"
  have p: "(1::int) \<le> 14" by simp
  obtain R where R: "length R = length data"
      "load_price_data data 14 =
             Inr \<lparr>rsi_label = rsi_column_label 14,
                  frame_rows = filter (\<lambda>r. \<not> is_nan (RSI r)) (map2 add_rsi data R)\<rparr>"
      "filter (\<lambda>r. \<not> is_nan (RSI r)) (map2 add_rsi data R) =
                drop (Suc ?m) (map2 add_rsi data R)"
    using load_finite [OF p assms(2)] by auto
  define pd where "pd = \<lparr>rsi_label = rsi_column_label 14,
                  frame_rows = filter (\<lambda>r. \<not> is_nan (RSI r)) (map2 add_rsi data R)\<rparr>"
  have load: "load_price_data data 14 = Inr pd" using R(2) pd_def by simp
  have n: "length (frame_rows pd) = 249 - ?m"
    using R(1,3) assms(1) by (simp add: pd_def)
  obtain fig df where f: "plot_price default_config pd = Inr (fig, df)"
    using plot_price_ok [of default_config pd] by (auto simp: default_config_def pd_def)
  let ?df = "map add_date (frame_rows pd)"
  note parts = plot_price_parts [OF f]
  have on: "rsi_1 default_config" "volume default_config" by (simp_all add: default_config_def)
  obtain a2 where a2: "ax2 fig = Some a2" "rsi_panel default_config (rsi_label pd) ?df = Inr a2"
    using parts(2) on(1) by (cases "ax2 fig") auto
  have a3: "ax3 fig = Some (volume_panel default_config ?df)" using parts(3) on(2) by simp
  have l1: "\<forall>l\<in>set (ax_lines (ax1 fig)). length (line_y l) = length ?df"
    using price_panel_lines [OF parts(1)] by simp
  have "map line_y (ax_lines a2) = [map RSI ?df]" using rsi_panel_rows [OF a2(2)] by simp
  then have "\<exists>l. ax_lines a2 = [l] \<and> line_y l = map RSI ?df" by auto
  then have l2: "\<forall>l\<in>set (ax_lines a2). length (line_y l) = length ?df" by auto
  have h: "map h_y (ax_hlines a2) = [1, 99, 15, 85, 30, 70]" using rsi_panel_rows [OF a2(2)] by simp
  have lab: "map line_label (ax_lines (ax1 fig)) =
             [Some ''Adj. Close'', Some ''SMA(50)'', Some ''SMA(200)'']"
    using price_panel_labels [OF parts(1)] .
  have len: "length (panels fig) = 3" using a2(1) a3 by (simp add: panels_def)
  have bars: "n_bars (volume_panel default_config ?df) = 249 - ?m"
    using n by (simp add: n_bars_volume)
  show ?thesis
    using load f a2(1) a3 len lab h bars n l1 l2 by auto
qed

lemma example_length: "length example_data = 250"
  by (simp add: example_data_def)

lemma example_complete: "\<forall>r\<in>set example_data. complete_row r"
  by (simp add: example_data_def flat_row_def complete_row_def finite_val_def)

lemma example_unchanged: "unchanged_rows (map Adj_Close example_data) = 0"
proof -
  have "[1..250] = 1 # 2 # [3..250]" by (simp add: upto_rec1)
  then show ?thesis by (simp add: example_data_def flat_row_def unchanged_rows_def)
qed

lemma sma_gap:
  assumes "sma xs w = Inr y" "i < length xs" "Suc i < nat w"
  shows "y ! i = NaN"
proof -
  have "\<not> w < 0" using assms(3) by simp
  then have "y = map (\<lambda>i. calc_mean (nat w) (window_at xs (nat w) i)) [0..<length xs]"
    using assms(1) by (simp add: sma_def rolling_mean_def)
  then show ?thesis using calc_mean_early [OF assms(2,3)] assms(2) by simp
qed

lemma sma_length: "sma xs w = Inr y \<Longrightarrow> length y = length xs"
  by (auto simp: sma_def rolling_mean_def split: if_splits)

lemma price_panel_default:
  assumes "price_panel default_config df = Inr a"
  shows "\<exists>y1 y2. sma (map Adj_Close df) 50 = Inr y1 \<and> sma (map Adj_Close df) 200 = Inr y2 \<and>
           map line_y (ax_lines a) = [map Adj_Close df, y1, y2] \<and>
           map line_color (ax_lines a) = [''lightgray'', SMA_1_COLOR, SMA_2_COLOR]"
  using assms
  by (auto simp: price_panel_def Let_def plot_def subplot_def sma_line_def default_config_def
        split: sum.splits)


lemma map_Adj_Close_add_date: "map Adj_Close (map add_date rs) = map Adj_Close rs"
  by (simp add: comp_def)

text \<open>
  C2, as the code has it: for a download of 250 rows, the windows 50, 200 and 14 and every
  panel switched on, the figure has 3 panels. \<^verbatim>\<open>load_price_data\<close> removes every row with an
  undefined value in any column, the oscillator included, before anything is drawn; the
  first row is always among them, so at most 249 rows are left. The price panel has the
  price line and exactly 2 more lines, which are the moving averages over 50 and 200 of
  the prices of the rows that are left, with their undefined values as gaps (the first 49
  and 199 points); the oscillator panel has the oscillator line and the 6 reference lines
  at 1, 99, 15, 85, 30 and 70; the volume panel has one bar for every row that is left.
\<close>

theorem default_render:
  assumes "length data = 250"
  shows "\<exists>R pd fig df a2 a3 y1 y2.
           rsi (map Adj_Close data) 14 = Inr R \<and> load_price_data data 14 = Inr pd \<and>
           plot_price default_config pd = Inr (fig, df) \<and>
           frame_rows pd = filter row_defined (map2 add_rsi data R) \<and>
           length (frame_rows pd) \<le> 249 \<and>
           ax2 fig = Some a2 \<and> ax3 fig = Some a3 \<and> length (panels fig) = 3 \<and>
           sma (map Adj_Close (frame_rows pd)) 50 = Inr y1 \<and>
           sma (map Adj_Close (frame_rows pd)) 200 = Inr y2 \<and>
           map line_y (ax_lines (ax1 fig)) = [map Adj_Close (frame_rows pd), y1, y2] \<and>
           map line_label (ax_lines (ax1 fig)) =
             [Some ''Adj. Close'', Some ''SMA(50)'', Some ''SMA(200)''] \<and>
           length y1 = length (frame_rows pd) \<and> length y2 = length (frame_rows pd) \<and>
           (\<forall>i<length (frame_rows pd). (i < 49 \<longrightarrow> y1 ! i = NaN) \<and> (i < 199 \<longrightarrow> y2 ! i = NaN)) \<and>
           map line_y (ax_lines a2) = [map RSI (frame_rows pd)] \<and>
           map h_y (ax_hlines a2) = [1, 99, 15, 85, 30, 70] \<and>
           ax_bars a3 = Some (map idx (frame_rows pd), map Volume (frame_rows pd), ''white'') \<and>
           n_bars a3 = length (frame_rows pd)"
proof -
  have p: "(1::int) \<le> 14" by simp
  obtain R where R: "rsi (map Adj_Close data) 14 = Inr R" "length R = length data"
      "load_price_data data 14 =
         Inr \<lparr>rsi_label = rsi_column_label 14, frame_rows = dropna (map2 add_rsi data R)\<rparr>"
    using load_price_data_ok [OF p, of data] by blast
  define pd where "pd = \<lparr>rsi_label = rsi_column_label 14,
                          frame_rows = dropna (map2 add_rsi data R)\<rparr>"
  have load: "load_price_data data 14 = Inr pd" using R(3) pd_def by simp
  have fr: "frame_rows pd = filter row_defined (map2 add_rsi data R)"
    by (simp add: pd_def dropna_row_defined)
  have ne: "data \<noteq> []" using assms by auto
  have n: "length (frame_rows pd) \<le> 249" using load_drops_first [OF load ne] assms by simp
  obtain fig df where f: "plot_price default_config pd = Inr (fig, df)"
    using plot_price_ok [of default_config pd] by (auto simp: default_config_def pd_def)
  let ?rows = "frame_rows pd"
  let ?df = "map add_date ?rows"
  note parts = plot_price_parts [OF f]
  have on: "rsi_1 default_config" "volume default_config" by (simp_all add: default_config_def)
  obtain a2 where a2: "ax2 fig = Some a2" "rsi_panel default_config (rsi_label pd) ?df = Inr a2"
    using parts(2) on(1) by (cases "ax2 fig") auto
  have a3: "ax3 fig = Some (volume_panel default_config ?df)" using parts(3) on(2) by simp
  obtain y1 y2 where y: "sma (map Adj_Close ?df) 50 = Inr y1" "sma (map Adj_Close ?df) 200 = Inr y2"
      "map line_y (ax_lines (ax1 fig)) = [map Adj_Close ?df, y1, y2]"
    using price_panel_default [OF parts(1)] by (elim exE conjE)
  have adj: "map Adj_Close ?df = map Adj_Close ?rows" by (rule map_Adj_Close_add_date)
  note y' = y [unfolded adj]
  have ly: "length y1 = length ?rows" "length y2 = length ?rows"
    using sma_length [OF y'(1)] sma_length [OF y'(2)] by simp_all
  have gaps: "\<forall>i<length ?rows. (i < 49 \<longrightarrow> y1 ! i = NaN) \<and> (i < 199 \<longrightarrow> y2 ! i = NaN)"
  proof (intro allI impI conjI)
    fix i assume i: "i < length ?rows" and "i < 49"
    then show "y1 ! i = NaN" using sma_gap [OF y'(1), of i] by simp
  next
    fix i assume i: "i < length ?rows" and "i < 199"
    then show "y2 ! i = NaN" using sma_gap [OF y'(2), of i] by simp
  qed
  have lab: "map line_label (ax_lines (ax1 fig)) =
             [Some ''Adj. Close'', Some ''SMA(50)'', Some ''SMA(200)'']"
    using price_panel_labels [OF parts(1)] .
  have osc: "map line_y (ax_lines a2) = [map RSI ?rows]"
    using rsi_panel_rows [OF a2(2)] by (simp add: comp_def)
  have h: "map h_y (ax_hlines a2) = [1, 99, 15, 85, 30, 70]"
    using rsi_panel_rows [OF a2(2)] by simp
  have len: "length (panels fig) = 3" using a2(1) a3 by (simp add: panels_def)
  have bars: "ax_bars (volume_panel default_config ?df) =
                Some (map idx ?rows, map Volume ?rows, ''white'')"
    using volume_panel_rows [of default_config ?df] by (simp add: comp_def)
  have nb: "n_bars (volume_panel default_config ?df) = length ?rows"
    by (simp add: n_bars_volume)
  show ?thesis
    using R(1) load f fr n a2(1) a3 len y' lab ly gaps osc h bars nb
    by (intro exI [of _ R] exI [of _ pd] exI [of _ fig] exI [of _ df] exI [of _ a2]
          exI [of _ "volume_panel default_config ?df"] exI [of _ y1] exI [of _ y2]) simp
qed

theorem default_render_witness:
  "length example_data = 250 \<and>
   length (panels (fst (projr (plot_price default_config
                                 (projr (load_price_data example_data 14)))))) = 3 \<and>
   map_option n_bars (ax3 (fst (projr (plot_price default_config
                                 (projr (load_price_data example_data 14)))))) = Some 249"
proof -
  obtain pd fig df a3 where h:
      "load_price_data example_data 14 = Inr pd" "plot_price default_config pd = Inr (fig, df)"
      "ax3 fig = Some a3" "n_bars a3 = 249 - unchanged_rows (map Adj_Close example_data)"
    using default_render_rows [OF example_length example_complete] by (elim exE conjE)
  show ?thesis
    using default_render [OF example_length] h example_unchanged example_length by auto
qed

text \<open>
  The claim of C2 as it was written fails on the 250 rows with the prices 1 to 250: the
  first row has no oscillator value and is removed from the frame, so 249 rows are left
  and the volume panel has 249 bars, not 250.
\<close>

theorem bars_counterexample:
  "length example_data = 250 \<and>
   length (frame_rows (projr (load_price_data example_data 14))) = 249 \<and>
   map_option n_bars (ax3 (fst (projr (plot_price default_config
                                 (projr (load_price_data example_data 14)))))) = Some 249"
  using default_render_rows [OF example_length example_complete] example_unchanged example_length
  by auto


text \<open>
  C10: the interval conversion is a total function on strings. It maps exactly
  "1 day" to "1d", "1 week" to "1wk" and "1 month" to "1mo", and returns every other
  string unchanged.
\<close>

theorem convert_interval_total:
  "convert_interval ''1 day'' = ''1d'' \<and>
   convert_interval ''1 week'' = ''1wk'' \<and>
   convert_interval ''1 month'' = ''1mo'' \<and>
   (s \<noteq> ''1 day'' \<and> s \<noteq> ''1 week'' \<and> s \<noteq> ''1 month'' \<longrightarrow> convert_interval s = s)"
  by (simp add: convert_interval_def)

theorem convert_interval_total_witness:
  "''1d'' \<noteq> ''1 day'' \<and> ''1d'' \<noteq> ''1 week'' \<and> ''1d'' \<noteq> ''1 month'' \<and>
   convert_interval ''1d'' = ''1d'' \<and> convert_interval ''1 day'' = ''1d''"
  using convert_interval_total [of "''1d''"] by simp


end
